theory Spec2Isabelle
  imports Main "HOL-Library.AList" "HOL-Library.Char_ord" "HOL-Library.List_Lexorder"
begin

section \<open>JavaScript values and strings\<close>

text \<open>
  Values that reach the handlers from outside (query parameters, JSON bodies, decoded
  token payloads) are JSON-like JavaScript values.  Strings are byte strings; numbers
  are integers (only their truthiness and decimal rendering are used).
\<close>

datatype jsval =
    JUndefined
  | JNull
  | JBool bool
  | JNum int
  | JStr string
  | JArr "jsval list"
  | JObj "(string \<times> jsval) list"

definition digit_char :: "nat \<Rightarrow> char" where
  "digit_char d = char_of (48 + d)"

fun show_nat :: "nat \<Rightarrow> string" where
  "show_nat n = (if n < 10 then [digit_char n] else show_nat (n div 10) @ [digit_char (n mod 10)])"

declare show_nat.simps [simp del]

definition show_int :: "int \<Rightarrow> string" where
  "show_int i = (if i < 0 then CHR ''-'' # show_nat (nat (- i)) else show_nat (nat i))"

text \<open>
  String conversion as a template literal \<^verbatim>\<open>`${v}`\<close> performs it: an array is its
  elements joined by commas, with \<^verbatim>\<open>null\<close> and \<^verbatim>\<open>undefined\<close> elements rendered empty.
\<close>

fun js_toString :: "jsval \<Rightarrow> string" and js_join :: "jsval list \<Rightarrow> string" where
  "js_toString JUndefined = ''undefined''"
| "js_toString JNull = ''null''"
| "js_toString (JBool b) = (if b then ''true'' else ''false'')"
| "js_toString (JNum n) = show_int n"
| "js_toString (JStr s) = s"
| "js_toString (JArr xs) = js_join xs"
| "js_toString (JObj kvs) = ''[object Object]''"
| "js_join [] = []"
| "js_join (x # xs) =
     (if x = JUndefined \<or> x = JNull then [] else js_toString x) @
     (if xs = [] then [] else CHR '','' # js_join xs)"

definition truthy :: "jsval \<Rightarrow> bool" where
  "truthy v =
     (case v of
        JUndefined \<Rightarrow> False
      | JNull \<Rightarrow> False
      | JBool b \<Rightarrow> b
      | JNum n \<Rightarrow> n \<noteq> 0
      | JStr s \<Rightarrow> s \<noteq> []
      | JArr xs \<Rightarrow> True
      | JObj kvs \<Rightarrow> True)"

text \<open>
  Reading a named own property of a value that is neither \<^verbatim>\<open>null\<close> nor
  \<^verbatim>\<open>undefined\<close>.  Only data properties of JSON objects are modelled; the names read by
  the program (\<^verbatim>\<open>shop\<close>, \<^verbatim>\<open>dest\<close>, \<^verbatim>\<open>shop_domain\<close>, the sender fields) are not built-in
  properties of strings, numbers or arrays.
\<close>

definition js_prop :: "jsval \<Rightarrow> string \<Rightarrow> jsval" where
  "js_prop v k =
     (case v of
        JObj kvs \<Rightarrow> (case map_of kvs k of Some x \<Rightarrow> x | None \<Rightarrow> JUndefined)
      | _ \<Rightarrow> JUndefined)"

text \<open>\<^verbatim>\<open>a === b\<close> where \<^verbatim>\<open>a\<close> is known to be a string.\<close>

definition strict_eq_str :: "string \<Rightarrow> jsval \<Rightarrow> bool" where
  "strict_eq_str s v = (v = JStr s)"

definition startsWith :: "string \<Rightarrow> string \<Rightarrow> bool" where
  "startsWith s p = (take (length p) s = p)"

text \<open>
  \<^verbatim>\<open>s.replace(pat, rep)\<close> with a string pattern: the first occurrence of \<^verbatim>\<open>pat\<close>,
  wherever it is, is replaced; a string without an occurrence is returned as it is.
\<close>

fun js_replace :: "string \<Rightarrow> string \<Rightarrow> string \<Rightarrow> string" where
  "js_replace [] pat rep = (if pat = [] then rep else [])"
| "js_replace (c # cs) pat rep =
     (if startsWith (c # cs) pat then rep @ drop (length pat) (c # cs)
      else c # js_replace cs pat rep)"

text \<open>\<^verbatim>\<open>Array.prototype.join\<close> on an array of strings.\<close>

fun array_join :: "string \<Rightarrow> string list \<Rightarrow> string" where
  "array_join sep [] = []"
| "array_join sep [x] = x"
| "array_join sep (x # y # ys) = x @ sep @ array_join sep (y # ys)"

section \<open>Data model\<close>

text \<open>
  The three Sequelize models of \<^verbatim>\<open>database.js\<close>.  A table is the list of its rows.
  Dates are milliseconds since the epoch.  The \<^verbatim>\<open>updatedAt\<close> column that Sequelize
  maintains by itself is not modelled, nor is \<^verbatim>\<open>createdAt\<close> of shops and sender
  configurations; no handler reads them.
\<close>

record shop_row =
  s_shop :: string
  s_accessToken :: string
  s_scope :: "string option"
  s_installedAt :: int
  s_uninstalledAt :: "int option"
  s_isActive :: bool

record key_row =
  k_id :: string
  k_shop :: string
  k_accessKey :: string
  k_name :: "string option"
  k_lastUsedAt :: "int option"
  k_isActive :: bool
  k_createdAt :: int

record config_row =
  c_shop :: string
  c_senderIdentificationType :: "string option"
  c_senderId :: "string option"
  c_senderName :: "string option"
  c_senderPhone :: "string option"
  c_senderMail :: "string option"
  c_provinciaSender :: "string option"
  c_cantonSender :: "string option"
  c_distritoSender :: "string option"
  c_senderPostalCode :: "string option"
  c_senderDirection :: "string option"

text \<open>An entry of the in-memory map \<^verbatim>\<open>temporaryStates\<close>.\<close>

record pending =
  p_state :: string
  p_timestamp :: int

text \<open>Requests the server sends to the platform (\<^verbatim>\<open>axios.post\<close>), in the order sent.\<close>

datatype http_call =
    TokenExchange string jsval
  | WebhookRegistration string string string

text \<open>
  The whole mutable state: the map of pending OAuth states (insertion-ordered, as a
  JavaScript \<^verbatim>\<open>Map\<close>), the three tables, and the log of outgoing calls.
\<close>

record world =
  temporaryStates :: "(string \<times> pending) list"
  shops :: "shop_row list"
  extension_keys :: "key_row list"
  sender_configs :: "config_row list"
  sent :: "http_call list"

datatype js_error =
    TypeError string
  | SyntaxError
  | SequelizeValidationError string
  | SequelizeUniqueConstraintError string
  | Error string
  | AxiosError

text \<open>The body returned by the platform's token endpoint.\<close>

record token_response =
  tr_access_token :: "string option"
  tr_scope :: "string option"

text \<open>
  What the program takes from its environment and from libraries: the configuration
  constants, HMAC-SHA256 of Node's \<^verbatim>\<open>crypto\<close> in its two encodings (key first, then
  message), the platform's answer to the token exchange (\<^verbatim>\<open>None\<close> when \<^verbatim>\<open>axios.post\<close>
  throws), \<^verbatim>\<open>jwt.decode\<close> (\<^verbatim>\<open>None\<close> when it throws, \<^verbatim>\<open>JNull\<close> when it returns null)
  and \<^verbatim>\<open>JSON.parse\<close> (\<^verbatim>\<open>None\<close> for a SyntaxError).
\<close>

record env =
  SHOPIFY_API_KEY :: string
  SHOPIFY_API_SECRET :: string
  APP_URL :: string
  hmac_sha256_hex :: "string \<Rightarrow> string \<Rightarrow> string"
  hmac_sha256_base64 :: "string \<Rightarrow> string \<Rightarrow> string"
  token_endpoint :: "string \<Rightarrow> jsval \<Rightarrow> token_response option"
  jwt_decode :: "string \<Rightarrow> jsval option"
  json_parse :: "string \<Rightarrow> jsval option"

text \<open>
  What one request draws from the clock and the random generator: \<^verbatim>\<open>Date.now()\<close>,
  \<^verbatim>\<open>crypto.randomBytes(16).toString('hex')\<close>, \<^verbatim>\<open>crypto.randomBytes(32).toString('hex')\<close>
  and the UUID of a new key row.
\<close>

record draw =
  date_now :: int
  randomBytes16 :: string
  randomBytes32 :: string
  uuidv4 :: string

datatype response =
    Send nat string
  | Json nat jsval
  | Redirect string

fun status :: "response \<Rightarrow> nat" where
  "status (Send n b) = n"
| "status (Json n b) = n"
| "status (Redirect u) = 302"

definition SCOPES :: string where
  "SCOPES = ''read_orders,read_fulfillments''"

section \<open>database.js\<close>

definition saveShopSession ::
  "jsval \<Rightarrow> string option \<Rightarrow> string option \<Rightarrow> int \<Rightarrow> world \<Rightarrow> js_error + world" where
  "saveShopSession shop accessToken scope t w =
     (case shop of
        JStr s \<Rightarrow>
          (case accessToken of
             None \<Rightarrow> Inl (SequelizeValidationError ''notNull Violation: Shop.accessToken cannot be null'')
           | Some tok \<Rightarrow>
               (let row = \<lparr>s_shop = s, s_accessToken = tok, s_scope = scope, s_installedAt = t,
                           s_uninstalledAt = None, s_isActive = True\<rparr>
                in Inr (w\<lparr>shops :=
                     (if list_ex (\<lambda>r. s_shop r = s) (shops w)
                      then map (\<lambda>r. if s_shop r = s then row else r) (shops w)
                      else shops w @ [row])\<rparr>)))
      | _ \<Rightarrow> Inl (SequelizeValidationError ''Shop.shop is not a string''))"

definition getShopSession :: "string \<Rightarrow> world \<Rightarrow> shop_row option" where
  "getShopSession shop w = find (\<lambda>r. s_shop r = shop \<and> s_isActive r) (shops w)"

definition deleteShopSession :: "string \<Rightarrow> int \<Rightarrow> world \<Rightarrow> world" where
  "deleteShopSession shop t w =
     w\<lparr>shops := map (\<lambda>r. if s_shop r = shop
                          then r\<lparr>s_isActive := False, s_uninstalledAt := Some t\<rparr> else r) (shops w),
       extension_keys := map (\<lambda>k. if k_shop k = shop then k\<lparr>k_isActive := False\<rparr> else k)
                           (extension_keys w)\<rparr>"

definition getActiveShopsCount :: "world \<Rightarrow> nat" where
  "getActiveShopsCount w = length (filter s_isActive (shops w))"

definition generateAccessKey :: "draw \<Rightarrow> string" where
  "generateAccessKey d = ''sk_'' @ randomBytes32 d"

definition createExtensionKey ::
  "string \<Rightarrow> string option \<Rightarrow> draw \<Rightarrow> world \<Rightarrow> js_error + (key_row \<times> world)" where
  "createExtensionKey shop name d w =
     (case getShopSession shop w of
        None \<Rightarrow> Inl (Error ''Shop not found'')
      | Some shopRecord \<Rightarrow>
          (let accessKey = generateAccessKey d;
               key = \<lparr>k_id = uuidv4 d, k_shop = shop, k_accessKey = accessKey, k_name = name,
                      k_lastUsedAt = None, k_isActive = True, k_createdAt = date_now d\<rparr>
           in if list_ex (\<lambda>k. k_id k = uuidv4 d \<or> k_accessKey k = accessKey) (extension_keys w)
              then Inl (SequelizeUniqueConstraintError ''extension_keys'')
              else Inr (key, w\<lparr>extension_keys := extension_keys w @ [key]\<rparr>)))"

text \<open>
  \<^verbatim>\<open>validateExtensionKey\<close>: the first active row with this key whose shop row is
  active (the \<^verbatim>\<open>include\<close> with a \<^verbatim>\<open>where\<close> is an inner join); its \<^verbatim>\<open>lastUsedAt\<close> is
  then written.  The result carries the shop and the shop row's access token.
\<close>

definition joined_shop :: "world \<Rightarrow> key_row \<Rightarrow> shop_row option" where
  "joined_shop w k = find (\<lambda>r. s_shop r = k_shop k \<and> s_isActive r) (shops w)"

definition validateExtensionKey ::
  "string \<Rightarrow> int \<Rightarrow> world \<Rightarrow> (string \<times> string) option \<times> world" where
  "validateExtensionKey accessKey t w =
     (case find (\<lambda>k. k_accessKey k = accessKey \<and> k_isActive k \<and> joined_shop w k \<noteq> None)
             (extension_keys w) of
        None \<Rightarrow> (None, w)
      | Some key \<Rightarrow>
          (case joined_shop w key of
             None \<Rightarrow> (None, w)
           | Some sh \<Rightarrow>
               (Some (k_shop key, s_accessToken sh),
                w\<lparr>extension_keys :=
                    map (\<lambda>k. if k_id k = k_id key then k\<lparr>k_lastUsedAt := Some t\<rparr> else k)
                      (extension_keys w)\<rparr>)))"

definition getShopExtensionKeys :: "string \<Rightarrow> world \<Rightarrow> key_row list" where
  "getShopExtensionKeys shop w =
     rev (sort_key k_createdAt (filter (\<lambda>k. k_shop k = shop \<and> k_isActive k) (extension_keys w)))"

definition revokeExtensionKey :: "string \<Rightarrow> string \<Rightarrow> world \<Rightarrow> world" where
  "revokeExtensionKey accessKey shop w =
     w\<lparr>extension_keys :=
        map (\<lambda>k. if k_accessKey k = accessKey \<and> k_shop k = shop then k\<lparr>k_isActive := False\<rparr> else k)
          (extension_keys w)\<rparr>"

definition getSenderConfig :: "string \<Rightarrow> world \<Rightarrow> config_row option" where
  "getSenderConfig shop w = find (\<lambda>c. c_shop c = shop) (sender_configs w)"

section \<open>server.js: OAuth handshake\<close>

text \<open>The body of the \<^verbatim>\<open>setInterval\<close> callback, run at time \<open>t\<close>.\<close>

definition sweep :: "int \<Rightarrow> world \<Rightarrow> world" where
  "sweep t w =
     w\<lparr>temporaryStates :=
        filter (\<lambda>(key, value). \<not> (t - p_timestamp value > 300000)) (temporaryStates w)\<rparr>"

definition is_alnum :: "char \<Rightarrow> bool" where
  "is_alnum c =
     (let n = (of_char c :: nat)
      in (48 \<le> n \<and> n \<le> 57) \<or> (65 \<le> n \<and> n \<le> 90) \<or> (97 \<le> n \<and> n \<le> 122))"

text \<open>\<^verbatim>\<open>/^[a-zA-Z0-9][a-zA-Z0-9\-]*\.myshopify\.com$/.test(s)\<close>\<close>

definition shopRegex_test :: "string \<Rightarrow> bool" where
  "shopRegex_test s =
     (let suffix = ''.myshopify.com'';
          n = length s - length suffix;
          label = take n s
      in length suffix < length s \<and> drop n s = suffix \<and>
         is_alnum (hd label) \<and> list_all (\<lambda>c. is_alnum c \<or> c = CHR ''-'') (tl label))"

definition auth :: "env \<Rightarrow> (string \<times> jsval) list \<Rightarrow> draw \<Rightarrow> world \<Rightarrow> response \<times> world" where
  "auth e query d w =
     (let shop = js_prop (JObj query) ''shop''
      in if \<not> truthy shop then (Send 400 ''Missing shop parameter'', w)
         else if \<not> shopRegex_test (js_toString shop) then (Send 400 ''Invalid shop parameter'', w)
         else
           (let state = randomBytes16 d;
                redirectUri = APP_URL e @ ''/api/auth/callback'';
                w' = w\<lparr>temporaryStates :=
                        AList.update (''state_'' @ js_toString shop)
                          \<lparr>p_state = state, p_timestamp = date_now d\<rparr> (temporaryStates w)\<rparr>;
                authUrl = ''https://'' @ js_toString shop @ ''/admin/oauth/authorize?'' @
                          ''client_id='' @ SHOPIFY_API_KEY e @ ''&'' @
                          ''scope='' @ SCOPES @ ''&'' @
                          ''redirect_uri='' @ redirectUri @ ''&'' @
                          ''state='' @ state
            in (Redirect authUrl, w')))"

text \<open>
  The string the callback signs: the query object without \<^verbatim>\<open>hmac\<close>, its keys sorted
  (\<^verbatim>\<open>Array.prototype.sort\<close> without comparator: code-unit order, a prefix first), each
  rendered \<^verbatim>\<open>key=value\<close>, joined by \<^verbatim>\<open>&\<close>.
\<close>

definition queryString :: "(string \<times> jsval) list \<Rightarrow> string" where
  "queryString query =
     (let queryParams = AList.delete ''hmac'' query
      in array_join ''&''
           (map (\<lambda>key. key @ ''='' @ js_toString (js_prop (JObj queryParams) key))
              (sort (map fst queryParams))))"

text \<open>
  \<^verbatim>\<open>registerWebhooks\<close> posts one subscription and swallows every failure, so it only
  adds to the log of outgoing calls.
\<close>

definition registerWebhooks :: "env \<Rightarrow> string \<Rightarrow> string \<Rightarrow> world \<Rightarrow> world" where
  "registerWebhooks e shop accessToken w =
     w\<lparr>sent := sent w @
        [WebhookRegistration (''https://'' @ shop @ ''/admin/api/2024-01/webhooks.json'')
           ''app/uninstalled'' (APP_URL e @ ''/api/webhooks/app/uninstalled'')]\<rparr>"

text \<open>
  The \<^verbatim>\<open>try\<close> block of the callback with its \<^verbatim>\<open>catch\<close>: every exception (the token
  request failing, a row that does not validate, a key that already exists) is answered
  with status 500, and what was written before it stays written.
\<close>

definition exchange_and_install ::
  "env \<Rightarrow> jsval \<Rightarrow> jsval \<Rightarrow> draw \<Rightarrow> world \<Rightarrow> response \<times> world" where
  "exchange_and_install e shop code d w =
     (let url = ''https://'' @ js_toString shop @ ''/admin/oauth/access_token'';
          w1 = w\<lparr>sent := sent w @ [TokenExchange url code]\<rparr>
      in case token_endpoint e url code of
           None \<Rightarrow> (Send 500 ''Error during authentication'', w1)
         | Some tokenResponse \<Rightarrow>
             (case saveShopSession shop (tr_access_token tokenResponse) (tr_scope tokenResponse)
                     (date_now d) w1 of
                Inl err \<Rightarrow> (Send 500 ''Error during authentication'', w1)
              | Inr w2 \<Rightarrow>
                  (case createExtensionKey (js_toString shop) (Some ''Access Key Inicial'') d w2 of
                     Inl err \<Rightarrow> (Send 500 ''Error during authentication'', w2)
                   | Inr (key, w3) \<Rightarrow>
                       (Redirect (''https://'' @ js_toString shop @ ''/admin/apps/'' @ SHOPIFY_API_KEY e),
                        registerWebhooks e (js_toString shop)
                          (case tr_access_token tokenResponse of Some a \<Rightarrow> a | None \<Rightarrow> ''undefined'')
                          w3))))"

definition callback :: "env \<Rightarrow> (string \<times> jsval) list \<Rightarrow> draw \<Rightarrow> world \<Rightarrow> response \<times> world" where
  "callback e query d w =
     (let shop = js_prop (JObj query) ''shop'';
          code = js_prop (JObj query) ''code'';
          state = js_prop (JObj query) ''state'';
          hmac = js_prop (JObj query) ''hmac''
      in case map_of (temporaryStates w) (''state_'' @ js_toString shop) of
           None \<Rightarrow> (Send 403 ''Invalid state parameter'', w)
         | Some savedState \<Rightarrow>
             if \<not> strict_eq_str (p_state savedState) state
             then (Send 403 ''Invalid state parameter'', w)
             else
               (let hash = hmac_sha256_hex e (SHOPIFY_API_SECRET e) (queryString query)
                in if \<not> strict_eq_str hash hmac
                   then (Send 403 ''HMAC validation failed'', w)
                   else exchange_and_install e shop code d
                          (w\<lparr>temporaryStates :=
                               AList.delete (''state_'' @ js_toString shop) (temporaryStates w)\<rparr>)))"

section \<open>server.js: the two authentication middlewares\<close>

text \<open>
  A request as the handlers read it: lower-cased header names, the route parameter of
  the revoke route, and the body produced by \<^verbatim>\<open>express.json()\<close>.
\<close>

record request =
  headers :: "(string \<times> string) list"
  param_accessKey :: string
  body :: jsval

text \<open>What a middleware attaches to the request before calling \<^verbatim>\<open>next()\<close>.\<close>

record attached =
  req_shop :: string
  req_accessToken :: string
  req_authMethod :: string

datatype verdict = Reject response | Next attached

definition error_json :: "nat \<Rightarrow> string \<Rightarrow> response" where
  "error_json code msg = Json code (JObj [(''error'', JStr msg)])"

definition verifySessionToken :: "env \<Rightarrow> request \<Rightarrow> world \<Rightarrow> verdict" where
  "verifySessionToken e req w =
     (case map_of (headers req) ''authorization'' of
        None \<Rightarrow> Reject (error_json 401 ''Missing authorization header'')
      | Some authHeader \<Rightarrow>
          if authHeader = [] \<or> \<not> startsWith authHeader ''Bearer ''
          then Reject (error_json 401 ''Missing authorization header'')
          else
            (let sessionToken = js_replace authHeader ''Bearer '' []
             in case jwt_decode e sessionToken of
                  None \<Rightarrow> Reject (error_json 401 ''Invalid session token'')
                | Some payload \<Rightarrow>
                    if \<not> truthy payload \<or> \<not> truthy (js_prop payload ''dest'')
                    then Reject (error_json 401 ''Invalid token format'')
                    else
                      (case js_prop payload ''dest'' of
                         JStr dest \<Rightarrow>
                           (let shop = js_replace dest ''https://'' []
                            in case getShopSession shop w of
                                 None \<Rightarrow> Reject (error_json 401 ''Shop not installed'')
                               | Some shopData \<Rightarrow>
                                   if \<not> s_isActive shopData
                                   then Reject (error_json 401 ''Shop not installed'')
                                   else Next \<lparr>req_shop = shop,
                                              req_accessToken = s_accessToken shopData,
                                              req_authMethod = ''session_token''\<rparr>)
                       | _ \<Rightarrow> Reject (error_json 401 ''Invalid session token''))))"

definition verifyExtensionKey :: "env \<Rightarrow> request \<Rightarrow> draw \<Rightarrow> world \<Rightarrow> verdict \<times> world" where
  "verifyExtensionKey e req d w =
     (case map_of (headers req) ''authorization'' of
        None \<Rightarrow> (Reject (error_json 401 ''Missing authorization header''), w)
      | Some authHeader \<Rightarrow>
          if authHeader = [] \<or> \<not> startsWith authHeader ''Bearer ''
          then (Reject (error_json 401 ''Missing authorization header''), w)
          else
            (let accessKey = js_replace authHeader ''Bearer '' []
             in if \<not> startsWith accessKey ''sk_''
                then (Reject (error_json 401 ''Invalid access key format''), w)
                else
                  (case validateExtensionKey accessKey (date_now d) w of
                     (None, w') \<Rightarrow> (Reject (error_json 401 ''Invalid or revoked access key''), w')
                   | (Some (shop, accessToken), w') \<Rightarrow>
                       (Next \<lparr>req_shop = shop, req_accessToken = accessToken,
                              req_authMethod = ''extension_key''\<rparr>, w'))))"

section \<open>server.js: extension keys and sender configuration\<close>

text \<open>\<^verbatim>\<open>DELETE /api/app/extension-keys/:accessKey\<close>\<close>

definition delete_extension_key :: "env \<Rightarrow> request \<Rightarrow> world \<Rightarrow> response \<times> world" where
  "delete_extension_key e req w =
     (case verifySessionToken e req w of
        Reject r \<Rightarrow> (r, w)
      | Next a \<Rightarrow>
          (Json 200 (JObj [(''success'', JBool True), (''message'', JStr ''Access key revocado'')]),
           revokeExtensionKey (param_accessKey req) (req_shop a) w))"

definition o_acute :: string where
  "o_acute = [char_of (195::nat), char_of (179::nat)]"

text \<open>The ten attributes of the \<^verbatim>\<open>SenderConfig\<close> model besides its key \<^verbatim>\<open>shop\<close>.\<close>

definition sender_fields :: "string list" where
  "sender_fields =
     [''senderIdentificationType'', ''senderId'', ''senderName'', ''senderPhone'', ''senderMail'',
      ''provinciaSender'', ''cantonSender'', ''distritoSender'', ''senderPostalCode'',
      ''senderDirection'']"

text \<open>
  The own properties an object spread \<^verbatim>\<open>...v\<close> copies.  An object is read as a finite
  map (\<^const>\<open>map_of\<close> takes the first binding of a name), so spreading \<open>v\<close> after a
  property \<^verbatim>\<open>shop\<close> puts the properties of \<open>v\<close> in front: a \<^verbatim>\<open>shop\<close> of \<open>v\<close> wins.
\<close>

definition spread :: "jsval \<Rightarrow> (string \<times> jsval) list" where
  "spread v =
     (case v of
        JObj kvs \<Rightarrow> kvs
      | JArr xs \<Rightarrow> zip (map show_nat [0 ..< length xs]) xs
      | _ \<Rightarrow> [])"

text \<open>
  A value offered for a \<^verbatim>\<open>STRING\<close> column: strings and numbers validate (a number is
  stored as its decimal text), \<^verbatim>\<open>null\<close> is stored as null, booleans, arrays and objects
  are refused by Sequelize's validation.  A property that is absent leaves the column to
  its previous value on update and to its default on insert.
\<close>

definition string_column_ok :: "jsval \<Rightarrow> bool" where
  "string_column_ok v = (case v of JBool b \<Rightarrow> False | JArr xs \<Rightarrow> False | JObj kvs \<Rightarrow> False | _ \<Rightarrow> True)"

definition column :: "(string \<times> jsval) list \<Rightarrow> string \<Rightarrow> string option \<Rightarrow> string option" where
  "column vals name previous =
     (case map_of vals name of
        None \<Rightarrow> previous
      | Some JUndefined \<Rightarrow> previous
      | Some JNull \<Rightarrow> None
      | Some (JStr s) \<Rightarrow> Some s
      | Some (JNum n) \<Rightarrow> Some (show_int n)
      | Some _ \<Rightarrow> previous)"

definition config_defaults :: "string \<Rightarrow> config_row" where
  "config_defaults shop =
     \<lparr>c_shop = shop, c_senderIdentificationType = Some ''1'', c_senderId = None,
      c_senderName = None, c_senderPhone = None, c_senderMail = None,
      c_provinciaSender = Some ''1'', c_cantonSender = Some ''1'', c_distritoSender = Some ''1'',
      c_senderPostalCode = None, c_senderDirection = None\<rparr>"

definition write_columns :: "(string \<times> jsval) list \<Rightarrow> config_row \<Rightarrow> config_row" where
  "write_columns vals r =
     r\<lparr>c_senderIdentificationType := column vals ''senderIdentificationType'' (c_senderIdentificationType r),
       c_senderId := column vals ''senderId'' (c_senderId r),
       c_senderName := column vals ''senderName'' (c_senderName r),
       c_senderPhone := column vals ''senderPhone'' (c_senderPhone r),
       c_senderMail := column vals ''senderMail'' (c_senderMail r),
       c_provinciaSender := column vals ''provinciaSender'' (c_provinciaSender r),
       c_cantonSender := column vals ''cantonSender'' (c_cantonSender r),
       c_distritoSender := column vals ''distritoSender'' (c_distritoSender r),
       c_senderPostalCode := column vals ''senderPostalCode'' (c_senderPostalCode r),
       c_senderDirection := column vals ''senderDirection'' (c_senderDirection r)\<rparr>"

text \<open>
  \<^verbatim>\<open>saveSenderConfig\<close>: \<^verbatim>\<open>SenderConfig.upsert({ shop, ...config })\<close>.  The row is
  validated, its \<^verbatim>\<open>shop\<close> must name a row of \<^verbatim>\<open>shops\<close> (foreign key), and it is
  inserted, or the provided columns of the existing row with that key are overwritten.
\<close>

definition saveSenderConfig :: "string \<Rightarrow> jsval \<Rightarrow> world \<Rightarrow> js_error + world" where
  "saveSenderConfig shop config w =
     (let vals = spread config @ [(''shop'', JStr shop)]
      in if \<not> list_all (\<lambda>name. string_column_ok (js_prop (JObj vals) name)) (''shop'' # sender_fields)
         then Inl (SequelizeValidationError ''string violation'')
         else
           (case column vals ''shop'' None of
              None \<Rightarrow> Inl (SequelizeValidationError ''notNull Violation: SenderConfig.shop cannot be null'')
            | Some key \<Rightarrow>
                if \<not> list_ex (\<lambda>r. s_shop r = key) (shops w)
                then Inl (Error ''foreign key constraint'')
                else if list_ex (\<lambda>c. c_shop c = key) (sender_configs w)
                then Inr (w\<lparr>sender_configs :=
                            map (\<lambda>c. if c_shop c = key then write_columns vals c else c)
                              (sender_configs w)\<rparr>)
                else Inr (w\<lparr>sender_configs :=
                            sender_configs w @ [write_columns vals (config_defaults key)]\<rparr>)))"

text \<open>\<^verbatim>\<open>POST /api/sender-config\<close>\<close>

definition post_sender_config :: "env \<Rightarrow> request \<Rightarrow> draw \<Rightarrow> world \<Rightarrow> response \<times> world" where
  "post_sender_config e req d w =
     (case verifyExtensionKey e req d w of
        (Reject r, w') \<Rightarrow> (r, w')
      | (Next a, w') \<Rightarrow>
          (case saveSenderConfig (req_shop a) (body req) w' of
             Inr w'' \<Rightarrow>
               (Json 200 (JObj [(''success'', JBool True),
                                (''message'', JStr (''Configuraci'' @ o_acute @ ''n guardada''))]), w'')
           | Inl err \<Rightarrow>
               (Json 500 (JObj [(''success'', JBool False),
                                (''error'', JStr (''Error guardando configuraci'' @ o_acute @ ''n''))]), w')))"

definition nullable :: "string option \<Rightarrow> jsval" where
  "nullable x = (case x of None \<Rightarrow> JNull | Some s \<Rightarrow> JStr s)"

text \<open>The object literal that \<^verbatim>\<open>GET /api/sender-config\<close> builds from the stored row.\<close>

definition config_projection :: "config_row \<Rightarrow> (string \<times> jsval) list" where
  "config_projection config =
     [(''senderIdentificationType'', nullable (c_senderIdentificationType config)),
      (''senderId'', nullable (c_senderId config)),
      (''senderName'', nullable (c_senderName config)),
      (''senderPhone'', nullable (c_senderPhone config)),
      (''senderMail'', nullable (c_senderMail config)),
      (''provinciaSender'', nullable (c_provinciaSender config)),
      (''cantonSender'', nullable (c_cantonSender config)),
      (''distritoSender'', nullable (c_distritoSender config)),
      (''senderPostalCode'', nullable (c_senderPostalCode config)),
      (''senderDirection'', nullable (c_senderDirection config))]"

text \<open>\<^verbatim>\<open>GET /api/sender-config\<close>\<close>

definition get_sender_config :: "env \<Rightarrow> request \<Rightarrow> draw \<Rightarrow> world \<Rightarrow> response \<times> world" where
  "get_sender_config e req d w =
     (case verifyExtensionKey e req d w of
        (Reject r, w') \<Rightarrow> (r, w')
      | (Next a, w') \<Rightarrow>
          (case getSenderConfig (req_shop a) w' of
             None \<Rightarrow>
               (Json 404 (JObj [(''success'', JBool False),
                  (''error'', JStr (''Configuraci'' @ o_acute @
                     ''n no encontrada. Configura el remitente en la app de Shopify.''))]), w')
           | Some config \<Rightarrow>
               (Json 200 (JObj [(''success'', JBool True),
                                (''config'', JObj (config_projection config))]), w')))"

section \<open>server.js: webhooks\<close>

text \<open>
  Under \<^verbatim>\<open>/api/webhooks\<close> the body parser is \<^verbatim>\<open>express.raw({ type: 'application/json' })\<close>:
  for the JSON deliveries of the platform \<^verbatim>\<open>req.body\<close> is a \<^verbatim>\<open>Buffer\<close> holding the bytes
  of the request body.
\<close>

record webhook =
  wh_headers :: "(string \<times> string) list"
  rawBody :: string

definition dq :: string where
  "dq = [char_of (34::nat)]"

text \<open>
  \<^verbatim>\<open>JSON.stringify\<close> of a \<^verbatim>\<open>Buffer\<close>: its \<^verbatim>\<open>toJSON\<close> form, an object with the type tag
  and the bytes as decimal numbers.
\<close>

definition stringify_buffer :: "string \<Rightarrow> string" where
  "stringify_buffer raw =
     ''{'' @ dq @ ''type'' @ dq @ '':'' @ dq @ ''Buffer'' @ dq @ '','' @ dq @ ''data'' @ dq @ '':['' @
     array_join '','' (map (\<lambda>c. show_nat (of_char c)) raw) @ '']}''"

definition verifyShopifyWebhook :: "env \<Rightarrow> string \<Rightarrow> string option \<Rightarrow> bool" where
  "verifyShopifyWebhook e data hmacHeader =
     (let hash = hmac_sha256_base64 e (SHOPIFY_API_SECRET e) data
      in hmacHeader = Some hash)"

text \<open>
  \<^verbatim>\<open>POST /api/webhooks/app/uninstalled\<close>.  \<^verbatim>\<open>deleteShopSession\<close> catches what its
  updates throw, as they do for a \<^verbatim>\<open>where\<close> on an undefined shop when the header is
  missing; nothing is written then.
\<close>

definition app_uninstalled :: "env \<Rightarrow> webhook \<Rightarrow> draw \<Rightarrow> world \<Rightarrow> response \<times> world" where
  "app_uninstalled e req d w =
     (let hmac = map_of (wh_headers req) ''x-shopify-hmac-sha256'';
          shop = map_of (wh_headers req) ''x-shopify-shop-domain'';
          hash = hmac_sha256_base64 e (SHOPIFY_API_SECRET e) (stringify_buffer (rawBody req))
      in if hmac \<noteq> Some hash then (Send 403 ''HMAC validation failed'', w)
         else (Send 200 ''OK'',
               (case shop of None \<Rightarrow> w | Some s \<Rightarrow> deleteShopSession s (date_now d) w)))"

text \<open>\<^verbatim>\<open>POST /api/webhooks\<close>\<close>

definition webhooks_probe :: "env \<Rightarrow> webhook \<Rightarrow> response" where
  "webhooks_probe e req =
     (if \<not> verifyShopifyWebhook e (rawBody req) (map_of (wh_headers req) ''x-shopify-hmac-sha256'')
      then Send 401 ''Unauthorized'' else Send 200 ''OK'')"

text \<open>
  The names under which \<^verbatim>\<open>database.js\<close> exports, and the binding that the
  destructuring \<^verbatim>\<open>require('./database')\<close> of \<^verbatim>\<open>server.js\<close> gives to
  \<^verbatim>\<open>deleteShopData\<close>: the module neither defines nor exports that name, so the binding
  is \<^verbatim>\<open>undefined\<close>.
\<close>

definition database_exports :: "string list" where
  "database_exports =
     [''sequelize'', ''Shop'', ''ExtensionKey'', ''SenderConfig'', ''initDatabase'',
      ''saveShopSession'', ''getShopSession'', ''deleteShopSession'', ''getActiveShopsCount'',
      ''generateAccessKey'', ''createExtensionKey'', ''validateExtensionKey'',
      ''getShopExtensionKeys'', ''revokeExtensionKey'', ''saveSenderConfig'', ''getSenderConfig'']"

definition deleteShopData :: "(jsval \<Rightarrow> world \<Rightarrow> world) option" where
  "deleteShopData = None"

text \<open>
  What \<^verbatim>\<open>req.body\<close> is on a route under \<^verbatim>\<open>/api/webhooks\<close>: a \<^verbatim>\<open>Buffer\<close> of the
  request's bytes when \<^verbatim>\<open>express.raw\<close> read it, and otherwise (no body, or a
  Content-Type other than \<^verbatim>\<open>application/json\<close>) no buffer at all: the plain object, or
  nothing, that the parsers left.
\<close>

datatype raw_body = Buffer string | Unparsed

record delivery =
  dl_headers :: "(string \<times> string) list"
  dl_body :: raw_body

text \<open>
  How a handler that is an \<^verbatim>\<open>async\<close> function ends: it writes a response, or what is
  thrown inside it rejects the promise it returns.  Nothing handles that rejection: no
  response is written, and Node's default for an unhandled rejection ends the process.
\<close>

datatype outcome = Responded response | UnhandledRejection js_error

text \<open>
  \<^verbatim>\<open>POST /api/webhooks/customers/redact\<close>.  The handler has no \<^verbatim>\<open>try\<close>.
  \<^verbatim>\<open>verifyShopifyWebhook(req.body, hmac)\<close> throws when \<^verbatim>\<open>req.body\<close> is not a buffer
  (\<^verbatim>\<open>Hmac.update\<close> takes a string or a buffer); \<^verbatim>\<open>JSON.parse\<close> throws on a body that is
  not JSON; reading \<^verbatim>\<open>shop_domain\<close> of \<^verbatim>\<open>null\<close> throws; and the call of
  \<^verbatim>\<open>deleteShopData\<close> throws because that binding is \<^verbatim>\<open>undefined\<close>.
\<close>

definition customers_redact :: "env \<Rightarrow> delivery \<Rightarrow> world \<Rightarrow> outcome \<times> world" where
  "customers_redact e req w =
     (let hmac = map_of (dl_headers req) ''x-shopify-hmac-sha256''
      in case dl_body req of
           Unparsed \<Rightarrow>
             (UnhandledRejection (TypeError ''The data argument must be of type string or Buffer''), w)
         | Buffer raw \<Rightarrow>
             if \<not> verifyShopifyWebhook e raw hmac then (Responded (Send 401 ''Unauthorized''), w)
             else
               (case json_parse e raw of
                  None \<Rightarrow> (UnhandledRejection SyntaxError, w)
                | Some webhook \<Rightarrow>
                    if webhook = JNull
                    then (UnhandledRejection
                            (TypeError ''Cannot read properties of null (reading shop_domain)''), w)
                    else
                      (let shopDomain = js_prop webhook ''shop_domain''
                       in case deleteShopData of
                            None \<Rightarrow>
                              (UnhandledRejection (TypeError ''deleteShopData is not a function''), w)
                          | Some f \<Rightarrow> (Responded (Send 200 ''OK''), f shopDomain w))))"

section \<open>The server over time\<close>

text \<open>
  What happens to the server: requests to the two OAuth routes, each with what it draws
  from the clock, and firings of the interval timer.
\<close>

datatype event =
    AuthRequest "(string \<times> jsval) list" draw
  | CallbackRequest "(string \<times> jsval) list" draw
  | SweepTimer int

fun event_time :: "event \<Rightarrow> int" where
  "event_time (AuthRequest q d) = date_now d"
| "event_time (CallbackRequest q d) = date_now d"
| "event_time (SweepTimer t) = t"

fun step :: "env \<Rightarrow> world \<Rightarrow> event \<Rightarrow> world" where
  "step e w (AuthRequest q d) = snd (auth e q d w)"
| "step e w (CallbackRequest q d) = snd (callback e q d w)"
| "step e w (SweepTimer t) = sweep t w"

definition initial :: world where
  "initial = \<lparr>temporaryStates = [], shops = [], extension_keys = [], sender_configs = [], sent = []\<rparr>"

definition run :: "env \<Rightarrow> event list \<Rightarrow> world" where
  "run e es = foldl (step e) initial es"

text \<open>
  A timeline: the clock does not go back, the timer set by
  \<^verbatim>\<open>setInterval(..., 300000)\<close> fires every 300000 ms and no request is handled after a
  firing that is due.  \<open>clock\<close> is the time of the last event, \<open>due\<close> the next firing.
\<close>

fun timeline :: "int \<Rightarrow> int \<Rightarrow> event list \<Rightarrow> bool" where
  "timeline clock due [] = True"
| "timeline clock due (SweepTimer t # es) = (t = due \<and> timeline t (due + 300000) es)"
| "timeline clock due (ev # es) =
     (clock \<le> event_time ev \<and> event_time ev \<le> due \<and> timeline (event_time ev) due es)"

section \<open>Derived notions\<close>

text \<open>A middleware verdict that is a rejection with the given status.\<close>

definition rejects_with :: "nat \<Rightarrow> verdict \<Rightarrow> bool" where
  "rejects_with code v = (case v of Reject r \<Rightarrow> status r = code | Next a \<Rightarrow> False)"

text \<open>The bearer token of a request: what follows \<^verbatim>\<open>Bearer \<close> in its Authorization header.\<close>

definition bearer_token :: "request \<Rightarrow> string option" where
  "bearer_token req =
     (case map_of (headers req) ''authorization'' of
        None \<Rightarrow> None
      | Some h \<Rightarrow> if startsWith h ''Bearer '' then Some (drop (length ''Bearer '') h) else None)"

text \<open>A key value that is stored in a row that is not revoked and whose shop is active.\<close>

definition key_usable :: "world \<Rightarrow> string \<Rightarrow> bool" where
  "key_usable w key =
     list_ex (\<lambda>k. k_accessKey k = key \<and> k_isActive k \<and>
                  list_ex (\<lambda>s. s_shop s = k_shop k \<and> s_isActive s) (shops w))
       (extension_keys w)"

text \<open>Every row holding the key value belongs to the shop.\<close>

definition key_owned_by :: "world \<Rightarrow> string \<Rightarrow> string \<Rightarrow> bool" where
  "key_owned_by w key shop = list_all (\<lambda>k. k_accessKey k = key \<longrightarrow> k_shop k = shop) (extension_keys w)"

text \<open>The \<^verbatim>\<open>config\<close> object of a JSON response, as its list of fields.\<close>

definition response_config :: "response \<Rightarrow> (string \<times> jsval) list" where
  "response_config r = (case r of Json code b \<Rightarrow> spread (js_prop b ''config'') | _ \<Rightarrow> [])"

text \<open>A value that a sender field can be written with and read back as: a string or null.\<close>

definition string_or_null :: "jsval \<Rightarrow> bool" where
  "string_or_null v = (case v of JStr s \<Rightarrow> True | JNull \<Rightarrow> True | _ \<Rightarrow> False)"

section \<open>The specification's wording, for comparison\<close>

text \<open>Stripping the prefix \<^verbatim>\<open>https://\<close>: a string that does not start with it is left as it is.\<close>

definition spec_strip_https_prefix :: "string \<Rightarrow> string" where
  "spec_strip_https_prefix dest =
     (if startsWith dest ''https://'' then drop (length ''https://'') dest else dest)"

text \<open>
  The canonical string in the words of the specification: the \<^verbatim>\<open>key=value\<close> pairs of
  every parameter but \<^verbatim>\<open>hmac\<close>, sorted by key, joined with \<^verbatim>\<open>&\<close>.
\<close>

definition spec_canonical_query :: "(string \<times> jsval) list \<Rightarrow> string" where
  "spec_canonical_query query =
     array_join ''&''
       (map (\<lambda>(k, v). k @ ''='' @ js_toString v)
          (sort_key fst (filter (\<lambda>(k, v). k \<noteq> ''hmac'') query)))"

section \<open>Sample inputs\<close>

text \<open>
  A concrete environment, clock reading and state on which the model is run below.  The
  two HMAC functions are stand-ins that only tag and concatenate key and message; the
  token endpoint accepts the code \<^verbatim>\<open>good\<close>; three session tokens decode.
\<close>

definition ex_env :: env where
  "ex_env =
     \<lparr>SHOPIFY_API_KEY = ''key1'',
      SHOPIFY_API_SECRET = ''secret1'',
      APP_URL = ''http://localhost:3000'',
      hmac_sha256_hex = (\<lambda>k m. ''hex:'' @ k @ '':'' @ m),
      hmac_sha256_base64 = (\<lambda>k m. ''b64:'' @ k @ '':'' @ m),
      token_endpoint = (\<lambda>url code.
         if code = JStr ''good''
         then Some \<lparr>tr_access_token = Some ''shpat_new'', tr_scope = Some ''read_orders''\<rparr>
         else None),
      jwt_decode = (\<lambda>t.
         if t = ''tokenA'' then Some (JObj [(''dest'', JStr ''https://a.myshopify.com'')])
         else if t = ''tokenB'' then Some (JObj [(''dest'', JStr ''https://b.myshopify.com'')])
         else if t = ''tokenX'' then Some (JObj [(''dest'', JStr ''a.myshopify.comhttps://'')])
         else Some JNull),
      json_parse = (\<lambda>s. if s = ''{}'' then Some (JObj []) else None)\<rparr>"

definition ex_draw :: draw where
  "ex_draw = \<lparr>date_now = 1000, randomBytes16 = ''c0ffee'', randomBytes32 = ''beef'', uuidv4 = ''uuid-2''\<rparr>"

definition ex_shop_a :: shop_row where
  "ex_shop_a = \<lparr>s_shop = ''a.myshopify.com'', s_accessToken = ''shpat_a'', s_scope = None,
                s_installedAt = 0, s_uninstalledAt = None, s_isActive = True\<rparr>"

definition ex_shop_b :: shop_row where
  "ex_shop_b = \<lparr>s_shop = ''b.myshopify.com'', s_accessToken = ''shpat_b'', s_scope = None,
                s_installedAt = 0, s_uninstalledAt = None, s_isActive = True\<rparr>"

definition ex_key_a :: key_row where
  "ex_key_a = \<lparr>k_id = ''uuid-1'', k_shop = ''a.myshopify.com'', k_accessKey = ''sk_a'',
               k_name = Some ''Access Key Inicial'', k_lastUsedAt = None, k_isActive = True,
               k_createdAt = 0\<rparr>"

definition ex_world :: world where
  "ex_world =
     \<lparr>temporaryStates = [(''state_a.myshopify.com'', \<lparr>p_state = ''s1'', p_timestamp = 0\<rparr>)],
      shops = [ex_shop_a, ex_shop_b],
      extension_keys = [ex_key_a],
      sender_configs = [],
      sent = []\<rparr>"

text \<open>A callback query for shop \<^verbatim>\<open>a\<close> with state \<^verbatim>\<open>s1\<close>, a code and a signature.\<close>

definition ex_query :: "string \<Rightarrow> string \<Rightarrow> (string \<times> jsval) list" where
  "ex_query code sig =
     [(''code'', JStr code), (''hmac'', JStr sig), (''shop'', JStr ''a.myshopify.com''),
      (''state'', JStr ''s1'')]"

definition ex_sig :: "string \<Rightarrow> string" where
  "ex_sig code = ''hex:secret1:code='' @ code @ ''&shop=a.myshopify.com&state=s1''"

text \<open>The same callback with a state that was never issued.\<close>

definition ex_replayed :: "(string \<times> jsval) list" where
  "ex_replayed = [(''code'', JStr ''good''), (''hmac'', JStr (ex_sig ''good'')),
                  (''shop'', JStr ''a.myshopify.com''), (''state'', JStr ''s0'')]"

text \<open>A request with a bearer token, a route parameter and a body.\<close>

definition ex_req :: "string \<Rightarrow> string \<Rightarrow> jsval \<Rightarrow> request" where
  "ex_req token accessKey b =
     \<lparr>headers = [(''authorization'', ''Bearer '' @ token)], param_accessKey = accessKey, body = b\<rparr>"

text \<open>A complete sender configuration as the extension posts it.\<close>

definition ex_config :: jsval where
  "ex_config =
     JObj [(''senderIdentificationType'', JStr ''1''), (''senderId'', JStr ''101110111''),
           (''senderName'', JStr ''Ana''), (''senderPhone'', JStr ''88888888''),
           (''senderMail'', JStr ''ana@example.com''), (''provinciaSender'', JStr ''1''),
           (''cantonSender'', JStr ''01''), (''distritoSender'', JStr ''01''),
           (''senderPostalCode'', JStr ''10101''), (''senderDirection'', JStr ''San Jose'')]"

text \<open>
  An uninstall delivery for shop \<^verbatim>\<open>a\<close> signed as the platform signs: over the bytes of
  the body.  A redact delivery naming shop \<^verbatim>\<open>a\<close>, with a correct signature, and an
  environment whose \<^verbatim>\<open>JSON.parse\<close> reads it.
\<close>

definition ex_uninstall :: webhook where
  "ex_uninstall =
     \<lparr>wh_headers = [(''x-shopify-hmac-sha256'', ''b64:secret1:{}''),
                    (''x-shopify-shop-domain'', ''a.myshopify.com'')],
      rawBody = ''{}''\<rparr>"

definition ex_redact_body :: string where
  "ex_redact_body = ''{'' @ dq @ ''shop_domain'' @ dq @ '':'' @ dq @ ''a.myshopify.com'' @ dq @ ''}''"

definition ex_redact :: delivery where
  "ex_redact =
     \<lparr>dl_headers = [(''x-shopify-hmac-sha256'', ''b64:secret1:'' @ ex_redact_body)],
      dl_body = Buffer ex_redact_body\<rparr>"

definition ex_redact_env :: env where
  "ex_redact_env =
     ex_env\<lparr>json_parse := (\<lambda>s. if s = ex_redact_body
                                then Some (JObj [(''shop_domain'', JStr ''a.myshopify.com'')])
                                else json_parse ex_env s)\<rparr>"

text \<open>
  An installation that starts one millisecond after the server, and the callback that
  completes it just before the second firing of the timer.
\<close>

definition ex_stale_events :: "event list" where
  "ex_stale_events =
     [AuthRequest [(''shop'', JStr ''a.myshopify.com'')] (ex_draw\<lparr>date_now := 1, randomBytes16 := ''s1''\<rparr>),
      SweepTimer 300000]"

definition ex_late_draw :: draw where
  "ex_late_draw = ex_draw\<lparr>date_now := 600000\<rparr>"

section \<open>Properties\<close>

subsection \<open>The OAuth callback\<close>

lemma map_insort_key: "map f (insort_key f x xs) = insort (f x) (map f xs)"
  by (induction xs) simp_all

lemma sort_map_keys: "sort (map f xs) = map f (sort_key f xs)"
  by (induction xs) (simp_all add: map_insort_key)

lemma map_lookup_sorted_keys:
  assumes "distinct (map fst kvs)"
  shows "map (\<lambda>key. g key (js_prop (JObj kvs) key)) (sort (map fst kvs)) =
         map (\<lambda>(k, v). g k v) (sort_key fst kvs)"
proof -
  have "\<And>k v. (k, v) \<in> set (sort_key fst kvs) \<Longrightarrow> js_prop (JObj kvs) k = v"
    using assms by (simp add: js_prop_def)
  then show ?thesis
    unfolding sort_map_keys by auto
qed

lemma delete_as_filter: "AList.delete k kvs = filter (\<lambda>(k', v). k' \<noteq> k) kvs"
  by (induction kvs) auto

lemma queryString_spec:
  assumes "distinct (map fst query)"
  shows "queryString query = spec_canonical_query query"
proof -
  let ?qp = "AList.delete ''hmac'' query"
  have "distinct (map fst ?qp)"
    using assms by (rule AList.distinct_delete)
  then have "map (\<lambda>key. key @ ''='' @ js_toString (js_prop (JObj ?qp) key)) (sort (map fst ?qp)) =
             map (\<lambda>(k, v). k @ ''='' @ js_toString v) (sort_key fst ?qp)"
    by (rule map_lookup_sorted_keys [where g = "\<lambda>k v. k @ ''='' @ js_toString v"])
  then have "queryString query =
             array_join ''&'' (map (\<lambda>(k, v). k @ ''='' @ js_toString v) (sort_key fst ?qp))"
    unfolding queryString_def Let_def by (rule arg_cong)
  then show ?thesis
    unfolding spec_canonical_query_def delete_as_filter .
qed

lemma ex_queryString [simp]:
  "queryString (ex_query code sig) = ''code='' @ code @ ''&shop=a.myshopify.com&state=s1''"
  by (simp add: queryString_def ex_query_def js_prop_def)

lemma ex_query_props [simp]:
  "js_prop (JObj (ex_query code sig)) ''hmac'' = JStr sig"
  "js_prop (JObj (ex_query code sig)) ''shop'' = JStr ''a.myshopify.com''"
  "js_prop (JObj (ex_query code sig)) ''state'' = JStr ''s1''"
  "js_prop (JObj (ex_query code sig)) ''code'' = JStr code"
  by (simp_all add: ex_query_def js_prop_def)

lemma ex_env_sel [simp]:
  "SHOPIFY_API_SECRET ex_env = ''secret1''"
  "SHOPIFY_API_KEY ex_env = ''key1''"
  "hmac_sha256_hex ex_env k m = ''hex:'' @ k @ '':'' @ m"
  "hmac_sha256_base64 ex_env k m = ''b64:'' @ k @ '':'' @ m"
  "token_endpoint ex_env url c =
     (if c = JStr ''good''
      then Some \<lparr>tr_access_token = Some ''shpat_new'', tr_scope = Some ''read_orders''\<rparr> else None)"
  by (simp_all add: ex_env_def)

lemma ex_world_sel [simp]:
  "temporaryStates ex_world = [(''state_a.myshopify.com'', \<lparr>p_state = ''s1'', p_timestamp = 0\<rparr>)]"
  "shops ex_world = [ex_shop_a, ex_shop_b]"
  "extension_keys ex_world = [ex_key_a]"
  "sender_configs ex_world = []"
  "sent ex_world = []"
  by (simp_all add: ex_world_def)

text \<open>
  Claim C1.  The string the callback signs is the \<^verbatim>\<open>key=value\<close> pairs of the query
  without \<^verbatim>\<open>hmac\<close>, sorted by key and joined with \<^verbatim>\<open>&\<close>; and whenever the hex
  HMAC-SHA256 of that string under the shared secret is not the supplied \<^verbatim>\<open>hmac\<close>
  parameter, the response has status 403 and the state is unchanged.
\<close>

theorem callback_rejects_bad_hmac:
  "(distinct (map fst query) \<longrightarrow> queryString query = spec_canonical_query query) \<and>
   (js_prop (JObj query) ''hmac'' \<noteq>
      JStr (hmac_sha256_hex e (SHOPIFY_API_SECRET e) (queryString query)) \<longrightarrow>
    status (fst (callback e query d w)) = 403 \<and> snd (callback e query d w) = w)"
  by (auto simp add: queryString_spec callback_def Let_def strict_eq_str_def split: option.splits)

text \<open>A forged signature on the sample query.\<close>

theorem callback_rejects_bad_hmac_witness:
  "distinct (map fst (ex_query ''good'' ''forged'')) \<and>
   queryString (ex_query ''good'' ''forged'') = spec_canonical_query (ex_query ''good'' ''forged'') \<and>
   js_prop (JObj (ex_query ''good'' ''forged'')) ''hmac'' \<noteq>
     JStr (hmac_sha256_hex ex_env (SHOPIFY_API_SECRET ex_env) (queryString (ex_query ''good'' ''forged''))) \<and>
   status (fst (callback ex_env (ex_query ''good'' ''forged'') ex_draw ex_world)) = 403 \<and>
   snd (callback ex_env (ex_query ''good'' ''forged'') ex_draw ex_world) = ex_world"
proof -
  have d: "distinct (map fst (ex_query ''good'' ''forged''))"
    by (simp add: ex_query_def)
  have h: "js_prop (JObj (ex_query ''good'' ''forged'')) ''hmac'' \<noteq>
     JStr (hmac_sha256_hex ex_env (SHOPIFY_API_SECRET ex_env) (queryString (ex_query ''good'' ''forged'')))"
    by simp
  show ?thesis
    using d h callback_rejects_bad_hmac
      [where query = "ex_query ''good'' ''forged''" and e = ex_env and d = ex_draw and w = ex_world]
    by blast
qed

text \<open>
  Claim C5.  If no pending state is stored under \<^verbatim>\<open>"state_" + shop\<close>, or the stored
  value is not exactly the \<^verbatim>\<open>state\<close> parameter, the callback answers
  \<^verbatim>\<open>403 Invalid state parameter\<close> and nothing changes: whatever the HMAC function and the
  token endpoint are, no pending state is consumed, no call is sent, no row is written.
\<close>

theorem callback_rejects_bad_state:
  assumes "case map_of (temporaryStates w) (''state_'' @ js_toString (js_prop (JObj query) ''shop'')) of
             None \<Rightarrow> True
           | Some savedState \<Rightarrow> js_prop (JObj query) ''state'' \<noteq> JStr (p_state savedState)"
  shows "callback e query d w = (Send 403 ''Invalid state parameter'', w)"
  using assms
  by (auto simp add: callback_def Let_def strict_eq_str_def split: option.splits)

text \<open>A correctly signed callback whose state is not the stored one.\<close>

theorem callback_rejects_bad_state_witness:
  "callback ex_env ex_replayed ex_draw ex_world = (Send 403 ''Invalid state parameter'', ex_world)"
  using callback_rejects_bad_state
    [where w = ex_world and query = ex_replayed and e = ex_env and d = ex_draw]
  by (simp add: ex_replayed_def js_prop_def)

lemma exchange_temporaryStates:
  "temporaryStates (snd (exchange_and_install e shop code d w)) = temporaryStates w"
  by (auto simp: exchange_and_install_def Let_def saveShopSession_def createExtensionKey_def registerWebhooks_def
      split: option.splits sum.splits jsval.splits prod.splits if_splits)

text \<open>
  Claim C10.  When the state and HMAC checks pass and the token exchange fails, the
  callback answers 500, the pending state is gone from the resulting state, and the same
  request sent again is answered \<^verbatim>\<open>403 Invalid state parameter\<close>.
\<close>

theorem callback_failed_exchange_consumes_state:
  assumes saved: "map_of (temporaryStates w) (''state_'' @ js_toString (js_prop (JObj query) ''shop'')) = Some savedState"
      and state: "js_prop (JObj query) ''state'' = JStr (p_state savedState)"
      and hmac: "js_prop (JObj query) ''hmac'' =
                   JStr (hmac_sha256_hex e (SHOPIFY_API_SECRET e) (queryString query))"
      and fails: "token_endpoint e (''https://'' @ js_toString (js_prop (JObj query) ''shop'') @ ''/admin/oauth/access_token'')
                    (js_prop (JObj query) ''code'') = None"
  shows "fst (callback e query d w) = Send 500 ''Error during authentication'' \<and>
         map_of (temporaryStates (snd (callback e query d w)))
           (''state_'' @ js_toString (js_prop (JObj query) ''shop'')) = None \<and>
         callback e query d' (snd (callback e query d w)) =
           (Send 403 ''Invalid state parameter'', snd (callback e query d w))"
proof -
  let ?key = "''state_'' @ js_toString (js_prop (JObj query) ''shop'')"
  let ?w' = "snd (callback e query d w)"
  have r: "callback e query d w =
           exchange_and_install e (js_prop (JObj query) ''shop'') (js_prop (JObj query) ''code'') d
             (w\<lparr>temporaryStates := AList.delete ?key (temporaryStates w)\<rparr>)"
    using saved state hmac by (simp add: callback_def Let_def strict_eq_str_def)
  have s: "fst (callback e query d w) = Send 500 ''Error during authentication''"
    unfolding r using fails by (simp add: exchange_and_install_def Let_def)
  have g: "map_of (temporaryStates ?w') ?key = None"
    unfolding r by (simp add: exchange_temporaryStates AList.delete_conv)
  have "callback e query d' ?w' = (Send 403 ''Invalid state parameter'', ?w')"
    using g by (simp add: callback_def Let_def)
  with s g show ?thesis by simp
qed

text \<open>A signed callback whose code the token endpoint refuses, sent twice.\<close>

theorem callback_failed_exchange_consumes_state_witness:
  "fst (callback ex_env (ex_query ''expired'' (ex_sig ''expired'')) ex_draw ex_world) =
     Send 500 ''Error during authentication'' \<and>
   map_of (temporaryStates (snd (callback ex_env (ex_query ''expired'' (ex_sig ''expired'')) ex_draw ex_world)))
     ''state_a.myshopify.com'' = None \<and>
   callback ex_env (ex_query ''expired'' (ex_sig ''expired'')) ex_draw
     (snd (callback ex_env (ex_query ''expired'' (ex_sig ''expired'')) ex_draw ex_world)) =
     (Send 403 ''Invalid state parameter'',
      snd (callback ex_env (ex_query ''expired'' (ex_sig ''expired'')) ex_draw ex_world))"
  using callback_failed_exchange_consumes_state
    [where w = ex_world and query = "ex_query ''expired'' (ex_sig ''expired'')"
       and savedState = "\<lparr>p_state = ''s1'', p_timestamp = 0\<rparr>"
       and e = ex_env and d = ex_draw and d' = ex_draw]
  by (simp add: ex_sig_def)

subsection \<open>The extension-key middleware\<close>

lemma startsWith_append [simp]: "startsWith (p @ s) p"
  by (simp add: startsWith_def)

lemma js_replace_prefix: "startsWith s p \<Longrightarrow> js_replace s p rep = rep @ drop (length p) s"
  by (cases s) (auto simp: startsWith_def)

lemma bearer_token_None:
  "bearer_token req = None \<longleftrightarrow>
     (case map_of (headers req) ''authorization'' of None \<Rightarrow> True
      | Some h \<Rightarrow> h = [] \<or> \<not> startsWith h ''Bearer '')"
  by (auto simp: bearer_token_def startsWith_def split: option.splits)

lemma bearer_token_Some:
  assumes "bearer_token req = Some key"
  shows "\<exists>h. map_of (headers req) ''authorization'' = Some h \<and> h \<noteq> [] \<and> startsWith h ''Bearer '' \<and>
             js_replace h ''Bearer '' [] = key"
proof -
  from assms obtain h where h: "map_of (headers req) ''authorization'' = Some h"
    "startsWith h ''Bearer ''" "key = drop (length ''Bearer '') h"
    by (auto simp: bearer_token_def split: option.splits if_splits)
  moreover from h(2) have "h \<noteq> []" by (auto simp: startsWith_def)
  moreover from h(2) have "js_replace h ''Bearer '' [] = drop (length ''Bearer '') h"
    by (simp add: js_replace_prefix)
  ultimately show ?thesis by simp
qed

lemma joined_shop_None:
  "joined_shop w k = None \<longleftrightarrow> \<not> list_ex (\<lambda>s. s_shop s = k_shop k \<and> s_isActive s) (shops w)"
  by (auto simp add: joined_shop_def find_None_iff list_ex_iff)

lemma validate_unusable:
  "\<not> key_usable w key \<Longrightarrow> validateExtensionKey key t w = (None, w)"
proof -
  assume "\<not> key_usable w key"
  then have "find (\<lambda>k. k_accessKey k = key \<and> k_isActive k \<and> joined_shop w k \<noteq> None)
               (extension_keys w) = None"
    by (auto simp: key_usable_def find_None_iff list_ex_iff joined_shop_None)
  then show ?thesis by (simp add: validateExtensionKey_def)
qed

lemma validate_usable:
  assumes "key_usable w key"
  shows "\<exists>k s. k \<in> set (extension_keys w) \<and> k_accessKey k = key \<and> k_isActive k \<and>
           s \<in> set (shops w) \<and> s_shop s = k_shop k \<and> s_isActive s \<and>
           validateExtensionKey key t w =
             (Some (k_shop k, s_accessToken s),
              w\<lparr>extension_keys :=
                  map (\<lambda>k'. if k_id k' = k_id k then k'\<lparr>k_lastUsedAt := Some t\<rparr> else k')
                    (extension_keys w)\<rparr>)"
proof -
  let ?P = "\<lambda>k. k_accessKey k = key \<and> k_isActive k \<and> joined_shop w k \<noteq> None"
  from assms have "\<exists>k\<in>set (extension_keys w). ?P k"
    by (auto simp: key_usable_def list_ex_iff joined_shop_None)
  then obtain k where k: "find ?P (extension_keys w) = Some k"
    by (cases "find ?P (extension_keys w)") (auto simp: find_None_iff)
  then have pk: "?P k" and kin: "k \<in> set (extension_keys w)"
    by (auto simp: find_Some_iff)
  from pk obtain s where s: "joined_shop w k = Some s" by auto
  then have "s \<in> set (shops w)" "s_shop s = k_shop k" "s_isActive s"
    by (auto simp: joined_shop_def find_Some_iff)
  with k s pk kin show ?thesis
    by (auto simp: validateExtensionKey_def)
qed

lemma rejects_with_error_json [simp]: "rejects_with c (Reject (error_json c' m)) = (c' = c)"
  by (simp add: rejects_with_def error_json_def)

lemma verifyExtensionKey_absent:
  "bearer_token req = None \<Longrightarrow>
   verifyExtensionKey e req d w = (Reject (error_json 401 ''Missing authorization header''), w)"
  by (auto simp: bearer_token_None verifyExtensionKey_def split: option.splits)

lemma verifyExtensionKey_bearer:
  assumes "bearer_token req = Some key"
  shows "verifyExtensionKey e req d w =
     (if \<not> startsWith key ''sk_'' then (Reject (error_json 401 ''Invalid access key format''), w)
      else case validateExtensionKey key (date_now d) w of
             (None, w') \<Rightarrow> (Reject (error_json 401 ''Invalid or revoked access key''), w')
           | (Some (shop, accessToken), w') \<Rightarrow>
               (Next \<lparr>req_shop = shop, req_accessToken = accessToken,
                      req_authMethod = ''extension_key''\<rparr>, w'))"
proof -
  from bearer_token_Some [OF assms] obtain h where
    "map_of (headers req) ''authorization'' = Some h" "h \<noteq> []" "startsWith h ''Bearer ''"
    "js_replace h ''Bearer '' [] = key" by blast
  then show ?thesis by (simp add: verifyExtensionKey_def Let_def)
qed

lemma key_usable_iff:
  "key_usable w key \<longleftrightarrow>
     (\<exists>k\<in>set (extension_keys w). k_accessKey k = key \<and> k_isActive k \<and>
        (\<exists>s\<in>set (shops w). s_shop s = k_shop k \<and> s_isActive s))"
  by (simp add: key_usable_def list_ex_iff)

lemma key_owned_by_iff:
  "key_owned_by w key shop \<longleftrightarrow> (\<forall>k\<in>set (extension_keys w). k_accessKey k = key \<longrightarrow> k_shop k = shop)"
  by (simp add: key_owned_by_def list_all_iff)

lemma revoked_keys:
  "extension_keys (revokeExtensionKey key shop w) =
     map (\<lambda>k. if k_accessKey k = key \<and> k_shop k = shop then k\<lparr>k_isActive := False\<rparr> else k)
       (extension_keys w)"
  by (simp add: revokeExtensionKey_def)

lemma uninstalled_keys:
  "extension_keys (deleteShopSession shop t w) =
     map (\<lambda>k. if k_shop k = shop then k\<lparr>k_isActive := False\<rparr> else k) (extension_keys w)"
  by (simp add: deleteShopSession_def)

lemma unusable_after_revoke:
  assumes "key_owned_by w key shop"
  shows "\<not> key_usable (revokeExtensionKey key shop w) key"
proof
  let ?f = "\<lambda>k. if k_accessKey k = key \<and> k_shop k = shop then k\<lparr>k_isActive := False\<rparr> else k"
  assume "key_usable (revokeExtensionKey key shop w) key"
  then obtain k' where k': "k' \<in> set (map ?f (extension_keys w))" "k_accessKey k' = key" "k_isActive k'"
    unfolding key_usable_iff by (auto simp only: revoked_keys)
  from k'(1) obtain k where k: "k \<in> set (extension_keys w)" "k' = ?f k"
    unfolding set_map by (rule imageE)
  show False
  proof (cases "k_accessKey k = key")
    case True
    with assms k(1) have "k_shop k = shop" by (simp add: key_owned_by_iff)
    with True k(2) have "\<not> k_isActive k'" by simp
    with k'(3) show False by simp
  next
    case False
    with k(2) have "k_accessKey k' \<noteq> key" by simp
    with k'(2) show False by simp
  qed
qed

lemma unusable_after_uninstall:
  assumes "key_owned_by w key shop"
  shows "\<not> key_usable (deleteShopSession shop t w) key"
proof
  let ?f = "\<lambda>k. if k_shop k = shop then k\<lparr>k_isActive := False\<rparr> else k"
  assume "key_usable (deleteShopSession shop t w) key"
  then obtain k' where k': "k' \<in> set (map ?f (extension_keys w))" "k_accessKey k' = key" "k_isActive k'"
    unfolding key_usable_iff by (auto simp only: uninstalled_keys)
  from k'(1) obtain k where k: "k \<in> set (extension_keys w)" "k' = ?f k"
    unfolding set_map by (rule imageE)
  from k(2) have same: "k_accessKey k' = k_accessKey k" by simp
  with k'(2) assms k(1) have "k_shop k = shop" by (simp add: key_owned_by_iff)
  with k(2) have "\<not> k_isActive k'" by simp
  with k'(3) show False by simp
qed

lemma verifyExtensionKey_unusable:
  "\<not> key_usable w key \<Longrightarrow> bearer_token req = Some key \<Longrightarrow>
   rejects_with 401 (fst (verifyExtensionKey e req d w)) \<and> snd (verifyExtensionKey e req d w) = w"
  by (simp add: verifyExtensionKey_bearer validate_unusable)

text \<open>
  Claim C6.  The extension middleware rejects with status 401, writing nothing, when
  the bearer token is absent, does not start with \<^verbatim>\<open>sk_\<close>, or is not a stored key that
  is active and owned by an active shop.  A key all of whose rows belong to a shop is
  rejected with 401 after it is revoked for that shop and after that shop is
  deactivated.  Otherwise the middleware proceeds with the shop of the key row and the
  access token of its shop row attached, and the row's last-used time is set to the
  current time.
\<close>

theorem verifyExtensionKey_401:
  "(bearer_token req = None \<longrightarrow>
      rejects_with 401 (fst (verifyExtensionKey e req d w)) \<and> snd (verifyExtensionKey e req d w) = w) \<and>
   (bearer_token req = Some key \<and> (\<not> startsWith key ''sk_'' \<or> \<not> key_usable w key) \<longrightarrow>
      rejects_with 401 (fst (verifyExtensionKey e req d w)) \<and> snd (verifyExtensionKey e req d w) = w) \<and>
   (bearer_token req = Some key \<and> key_owned_by w key shop \<longrightarrow>
      rejects_with 401 (fst (verifyExtensionKey e req d (revokeExtensionKey key shop w))) \<and>
      rejects_with 401 (fst (verifyExtensionKey e req d (deleteShopSession shop t w)))) \<and>
   (bearer_token req = Some key \<and> startsWith key ''sk_'' \<and> key_usable w key \<longrightarrow>
      (\<exists>k s. k \<in> set (extension_keys w) \<and> k_accessKey k = key \<and> k_isActive k \<and>
             s \<in> set (shops w) \<and> s_shop s = k_shop k \<and> s_isActive s \<and>
             verifyExtensionKey e req d w =
               (Next \<lparr>req_shop = k_shop k, req_accessToken = s_accessToken s,
                      req_authMethod = ''extension_key''\<rparr>,
                w\<lparr>extension_keys :=
                    map (\<lambda>k'. if k_id k' = k_id k then k'\<lparr>k_lastUsedAt := Some (date_now d)\<rparr> else k')
                      (extension_keys w)\<rparr>)))"
proof (intro conjI impI)
  assume "bearer_token req = None"
  then show "rejects_with 401 (fst (verifyExtensionKey e req d w))" "snd (verifyExtensionKey e req d w) = w"
    by (simp_all add: verifyExtensionKey_absent)
next
  assume a: "bearer_token req = Some key \<and> (\<not> startsWith key ''sk_'' \<or> \<not> key_usable w key)"
  then show "rejects_with 401 (fst (verifyExtensionKey e req d w))" "snd (verifyExtensionKey e req d w) = w"
    by (auto simp: verifyExtensionKey_bearer validate_unusable)
next
  assume a: "bearer_token req = Some key \<and> key_owned_by w key shop"
  then have b: "bearer_token req = Some key" and o: "key_owned_by w key shop"
    by simp_all
  from verifyExtensionKey_unusable [OF unusable_after_revoke [OF o] b]
  show "rejects_with 401 (fst (verifyExtensionKey e req d (revokeExtensionKey key shop w)))"
    by simp
  from verifyExtensionKey_unusable [OF unusable_after_uninstall [OF o] b]
  show "rejects_with 401 (fst (verifyExtensionKey e req d (deleteShopSession shop t w)))"
    by simp
next
  assume a: "bearer_token req = Some key \<and> startsWith key ''sk_'' \<and> key_usable w key"
  then have u: "key_usable w key" by simp
  from validate_usable [OF u, of "date_now d"] obtain k s where
    ks: "k \<in> set (extension_keys w)" "k_accessKey k = key" "k_isActive k"
        "s \<in> set (shops w)" "s_shop s = k_shop k" "s_isActive s"
        "validateExtensionKey key (date_now d) w =
             (Some (k_shop k, s_accessToken s),
              w\<lparr>extension_keys :=
                  map (\<lambda>k'. if k_id k' = k_id k then k'\<lparr>k_lastUsedAt := Some (date_now d)\<rparr> else k')
                    (extension_keys w)\<rparr>)"
    by blast
  have "verifyExtensionKey e req d w =
               (Next \<lparr>req_shop = k_shop k, req_accessToken = s_accessToken s,
                      req_authMethod = ''extension_key''\<rparr>,
                w\<lparr>extension_keys :=
                    map (\<lambda>k'. if k_id k' = k_id k then k'\<lparr>k_lastUsedAt := Some (date_now d)\<rparr> else k')
                      (extension_keys w)\<rparr>)"
    using a ks(7) by (simp add: verifyExtensionKey_bearer)
  with ks
  show "\<exists>k s. k \<in> set (extension_keys w) \<and> k_accessKey k = key \<and> k_isActive k \<and>
             s \<in> set (shops w) \<and> s_shop s = k_shop k \<and> s_isActive s \<and>
             verifyExtensionKey e req d w =
               (Next \<lparr>req_shop = k_shop k, req_accessToken = s_accessToken s,
                      req_authMethod = ''extension_key''\<rparr>,
                w\<lparr>extension_keys :=
                    map (\<lambda>k'. if k_id k' = k_id k then k'\<lparr>k_lastUsedAt := Some (date_now d)\<rparr> else k')
                      (extension_keys w)\<rparr>)"
    by blast
qed

lemma ex_bearer [simp]: "bearer_token (ex_req token k b) = Some token"
  by (simp add: bearer_token_def ex_req_def startsWith_def)

lemma ex_rows [simp]:
  "k_accessKey ex_key_a = ''sk_a''" "k_shop ex_key_a = ''a.myshopify.com''" "k_isActive ex_key_a"
  "k_id ex_key_a = ''uuid-1''"
  "s_shop ex_shop_a = ''a.myshopify.com''" "s_isActive ex_shop_a" "s_accessToken ex_shop_a = ''shpat_a''"
  "s_shop ex_shop_b = ''b.myshopify.com''" "s_isActive ex_shop_b" "s_accessToken ex_shop_b = ''shpat_b''"
  by (simp_all add: ex_key_a_def ex_shop_a_def ex_shop_b_def)

text \<open>
  The sample key \<^verbatim>\<open>sk_a\<close> of shop \<^verbatim>\<open>a\<close>: accepted, then rejected once revoked or once
  the shop is uninstalled; a request without header and an unknown key are rejected.
\<close>

theorem verifyExtensionKey_401_witness:
  "bearer_token (ex_req ''sk_a'' [] JNull) = Some ''sk_a'' \<and>
   key_owned_by ex_world ''sk_a'' ''a.myshopify.com'' \<and>
   startsWith ''sk_a'' ''sk_'' \<and> key_usable ex_world ''sk_a'' \<and>
   fst (verifyExtensionKey ex_env (ex_req ''sk_a'' [] JNull) ex_draw ex_world) =
     Next \<lparr>req_shop = ''a.myshopify.com'', req_accessToken = ''shpat_a'',
            req_authMethod = ''extension_key''\<rparr> \<and>
   rejects_with 401 (fst (verifyExtensionKey ex_env (ex_req ''sk_a'' [] JNull) ex_draw
      (revokeExtensionKey ''sk_a'' ''a.myshopify.com'' ex_world))) \<and>
   rejects_with 401 (fst (verifyExtensionKey ex_env (ex_req ''sk_a'' [] JNull) ex_draw
      (deleteShopSession ''a.myshopify.com'' 2000 ex_world))) \<and>
   bearer_token \<lparr>headers = [], param_accessKey = [], body = JNull\<rparr> = None \<and>
   rejects_with 401 (fst (verifyExtensionKey ex_env \<lparr>headers = [], param_accessKey = [], body = JNull\<rparr>
      ex_draw ex_world)) \<and>
   \<not> key_usable ex_world ''sk_b'' \<and>
   rejects_with 401 (fst (verifyExtensionKey ex_env (ex_req ''sk_b'' [] JNull) ex_draw ex_world))"
proof -
  have o: "key_owned_by ex_world ''sk_a'' ''a.myshopify.com''"
    by (simp add: key_owned_by_def)
  have u: "key_usable ex_world ''sk_a''"
    by (simp add: key_usable_def)
  have p: "startsWith ''sk_a'' ''sk_''"
    by (simp add: startsWith_def)
  have n: "bearer_token \<lparr>headers = [], param_accessKey = [], body = JNull\<rparr> = None"
    by (simp add: bearer_token_def)
  have b: "\<not> key_usable ex_world ''sk_b''"
    by (simp add: key_usable_def)
  note t1 = verifyExtensionKey_401 [where req = "ex_req ''sk_a'' [] JNull" and key = "''sk_a''"
      and shop = "''a.myshopify.com''" and w = ex_world and e = ex_env and d = ex_draw and t = 2000]
  note t2 = verifyExtensionKey_401 [where req = "\<lparr>headers = [], param_accessKey = [], body = JNull\<rparr>"
      and w = ex_world and e = ex_env and d = ex_draw]
  note t3 = verifyExtensionKey_401 [where req = "ex_req ''sk_b'' [] JNull" and key = "''sk_b''"
      and w = ex_world and e = ex_env and d = ex_draw]
  from t1 o u p have
    "rejects_with 401 (fst (verifyExtensionKey ex_env (ex_req ''sk_a'' [] JNull) ex_draw
      (revokeExtensionKey ''sk_a'' ''a.myshopify.com'' ex_world)))"
    "rejects_with 401 (fst (verifyExtensionKey ex_env (ex_req ''sk_a'' [] JNull) ex_draw
      (deleteShopSession ''a.myshopify.com'' 2000 ex_world)))"
    by simp_all
  moreover from t1 o u p have
    "\<exists>k s. k \<in> set (extension_keys ex_world) \<and> s \<in> set (shops ex_world) \<and> s_shop s = k_shop k \<and>
      fst (verifyExtensionKey ex_env (ex_req ''sk_a'' [] JNull) ex_draw ex_world) =
       Next \<lparr>req_shop = k_shop k, req_accessToken = s_accessToken s, req_authMethod = ''extension_key''\<rparr>"
    by auto
  then have "fst (verifyExtensionKey ex_env (ex_req ''sk_a'' [] JNull) ex_draw ex_world) =
     Next \<lparr>req_shop = ''a.myshopify.com'', req_accessToken = ''shpat_a'',
            req_authMethod = ''extension_key''\<rparr>"
    by auto
  moreover from t2 n have "rejects_with 401 (fst (verifyExtensionKey ex_env
      \<lparr>headers = [], param_accessKey = [], body = JNull\<rparr> ex_draw ex_world))"
    by simp
  moreover from t3 b have
    "rejects_with 401 (fst (verifyExtensionKey ex_env (ex_req ''sk_b'' [] JNull) ex_draw ex_world))"
    by simp
  ultimately show ?thesis using o u p n b by simp
qed

subsection \<open>The session-token middleware\<close>

lemma verifySessionToken_bearer:
  assumes "bearer_token req = Some token"
  shows "verifySessionToken e req w =
     (case jwt_decode e token of
        None \<Rightarrow> Reject (error_json 401 ''Invalid session token'')
      | Some payload \<Rightarrow>
          if \<not> truthy payload \<or> \<not> truthy (js_prop payload ''dest'')
          then Reject (error_json 401 ''Invalid token format'')
          else
            (case js_prop payload ''dest'' of
               JStr dest \<Rightarrow>
                 (case getShopSession (js_replace dest ''https://'' []) w of
                    None \<Rightarrow> Reject (error_json 401 ''Shop not installed'')
                  | Some shopData \<Rightarrow>
                      if \<not> s_isActive shopData
                      then Reject (error_json 401 ''Shop not installed'')
                      else Next \<lparr>req_shop = js_replace dest ''https://'' [],
                                 req_accessToken = s_accessToken shopData,
                                 req_authMethod = ''session_token''\<rparr>)
             | _ \<Rightarrow> Reject (error_json 401 ''Invalid session token'')))"
proof -
  from bearer_token_Some [OF assms] obtain h where
    "map_of (headers req) ''authorization'' = Some h" "h \<noteq> []" "startsWith h ''Bearer ''"
    "js_replace h ''Bearer '' [] = token" by blast
  then show ?thesis
    by (simp add: verifySessionToken_def Let_def cong: option.case_cong jsval.case_cong if_cong)
qed

lemma getShopSession_active: "getShopSession shop w = Some r \<Longrightarrow> s_isActive r \<and> s_shop r = shop \<and> r \<in> set (shops w)"
  by (auto simp: getShopSession_def find_Some_iff)

lemma getShopSession_None:
  "getShopSession shop w = None \<longleftrightarrow> \<not> list_ex (\<lambda>r. s_shop r = shop \<and> s_isActive r) (shops w)"
  by (auto simp: getShopSession_def find_None_iff list_ex_iff)

lemma truthy_string_dest: "js_prop payload ''dest'' = JStr dest \<Longrightarrow> dest \<noteq> [] \<Longrightarrow>
   truthy payload \<and> truthy (js_prop payload ''dest'')"
  by (cases payload) (auto simp: js_prop_def truthy_def)

text \<open>
  Claim C4, as amended.  For a request carrying a bearer token, the session middleware
  decodes the token and uses nothing else of it: the outcome does not depend on the
  shared secret, and the middleware reads no clock.  It rejects with 401 when decoding
  throws, or when the payload has no \<^verbatim>\<open>dest\<close> that is a non-empty string.  Otherwise the
  shop domain is \<^verbatim>\<open>dest\<close> with the first occurrence of \<^verbatim>\<open>https://\<close> removed (the prefix,
  when \<^verbatim>\<open>dest\<close> starts with it); the middleware rejects with 401 when no active shop row
  has that domain, and otherwise proceeds with the domain and the row's access token
  attached.
\<close>

theorem verifySessionToken_outcomes:
  assumes "bearer_token req = Some token"
  shows
  "(jwt_decode e token = None \<longrightarrow> rejects_with 401 (verifySessionToken e req w)) \<and>
   (jwt_decode e token = Some payload \<and> (\<forall>dest. js_prop payload ''dest'' = JStr dest \<longrightarrow> dest = []) \<longrightarrow>
      rejects_with 401 (verifySessionToken e req w)) \<and>
   (jwt_decode e token = Some payload \<and> js_prop payload ''dest'' = JStr dest \<and> dest \<noteq> [] \<longrightarrow>
      (case getShopSession (js_replace dest ''https://'' []) w of
         None \<Rightarrow> rejects_with 401 (verifySessionToken e req w)
       | Some shopData \<Rightarrow>
           verifySessionToken e req w =
             Next \<lparr>req_shop = js_replace dest ''https://'' [],
                    req_accessToken = s_accessToken shopData,
                    req_authMethod = ''session_token''\<rparr>)) \<and>
   (getShopSession shop w = None \<longleftrightarrow> \<not> list_ex (\<lambda>r. s_shop r = shop \<and> s_isActive r) (shops w)) \<and>
   js_replace (''https://'' @ domain) ''https://'' [] = domain \<and>
   verifySessionToken (e\<lparr>SHOPIFY_API_SECRET := secret\<rparr>) req w = verifySessionToken e req w"
proof (intro conjI impI)
  assume "jwt_decode e token = None"
  then show "rejects_with 401 (verifySessionToken e req w)"
    by (simp add: verifySessionToken_bearer [OF assms])
next
  assume a: "jwt_decode e token = Some payload \<and> (\<forall>dest. js_prop payload ''dest'' = JStr dest \<longrightarrow> dest = [])"
  then have "\<not> truthy (js_prop payload ''dest'') \<or> (\<forall>dest. js_prop payload ''dest'' \<noteq> JStr dest)"
    by (cases "js_prop payload ''dest''") (auto simp: truthy_def)
  with a show "rejects_with 401 (verifySessionToken e req w)"
    by (auto simp: verifySessionToken_bearer [OF assms] split: jsval.splits)
next
  assume a: "jwt_decode e token = Some payload \<and> js_prop payload ''dest'' = JStr dest \<and> dest \<noteq> []"
  then have t: "truthy payload" "truthy (js_prop payload ''dest'')"
    using truthy_string_dest [of payload dest] by simp_all
  show "case getShopSession (js_replace dest ''https://'' []) w of
         None \<Rightarrow> rejects_with 401 (verifySessionToken e req w)
       | Some shopData \<Rightarrow>
           verifySessionToken e req w =
             Next \<lparr>req_shop = js_replace dest ''https://'' [],
                    req_accessToken = s_accessToken shopData,
                    req_authMethod = ''session_token''\<rparr>"
    using a t
    by (auto simp: verifySessionToken_bearer [OF assms] split: option.splits dest: getShopSession_active)
next
  show "getShopSession shop w = None \<longleftrightarrow> \<not> list_ex (\<lambda>r. s_shop r = shop \<and> s_isActive r) (shops w)"
    by (rule getShopSession_None)
next
  show "js_replace (''https://'' @ domain) ''https://'' [] = domain"
    by (simp add: startsWith_def)
next
  show "verifySessionToken (e\<lparr>SHOPIFY_API_SECRET := secret\<rparr>) req w = verifySessionToken e req w"
    by (simp add: verifySessionToken_def cong: option.case_cong if_cong)
qed

lemma ex_jwt [simp]:
  "jwt_decode ex_env ''tokenA'' = Some (JObj [(''dest'', JStr ''https://a.myshopify.com'')])"
  "jwt_decode ex_env ''tokenB'' = Some (JObj [(''dest'', JStr ''https://b.myshopify.com'')])"
  "jwt_decode ex_env ''tokenX'' = Some (JObj [(''dest'', JStr ''a.myshopify.comhttps://'')])"
  "jwt_decode ex_env ''garbage'' = Some JNull"
  by (simp_all add: ex_env_def)

text \<open>
  The sample token of shop \<^verbatim>\<open>a\<close> is accepted, and rejected once the shop is
  uninstalled; a token that decodes to \<^verbatim>\<open>null\<close> is rejected.
\<close>

theorem verifySessionToken_outcomes_witness:
  "bearer_token (ex_req ''tokenA'' [] JNull) = Some ''tokenA'' \<and>
   jwt_decode ex_env ''tokenA'' = Some (JObj [(''dest'', JStr ''https://a.myshopify.com'')]) \<and>
   verifySessionToken ex_env (ex_req ''tokenA'' [] JNull) ex_world =
     Next \<lparr>req_shop = ''a.myshopify.com'', req_accessToken = ''shpat_a'',
            req_authMethod = ''session_token''\<rparr> \<and>
   rejects_with 401 (verifySessionToken ex_env (ex_req ''tokenA'' [] JNull)
      (deleteShopSession ''a.myshopify.com'' 2000 ex_world)) \<and>
   jwt_decode ex_env ''garbage'' = Some JNull \<and>
   rejects_with 401 (verifySessionToken ex_env (ex_req ''garbage'' [] JNull) ex_world)"
proof -
  let ?p = "JObj [(''dest'', JStr ''https://a.myshopify.com'')]"
  have d: "js_prop ?p ''dest'' = JStr ''https://a.myshopify.com''"
    by (simp add: js_prop_def)
  have r: "js_replace ''https://a.myshopify.com'' ''https://'' [] = ''a.myshopify.com''"
    by (simp add: startsWith_def)
  have g1: "getShopSession ''a.myshopify.com'' ex_world = Some ex_shop_a"
    by (simp add: getShopSession_def)
  have g2: "getShopSession ''a.myshopify.com'' (deleteShopSession ''a.myshopify.com'' 2000 ex_world) = None"
    by (simp add: getShopSession_def deleteShopSession_def)
  have n: "\<forall>dest. js_prop JNull ''dest'' = JStr dest \<longrightarrow> dest = []"
    by (simp add: js_prop_def)
  note t1 = verifySessionToken_outcomes [where req = "ex_req ''tokenA'' [] JNull" and token = "''tokenA''"
      and e = ex_env and w = ex_world and payload = ?p and dest = "''https://a.myshopify.com''"]
  note t2 = verifySessionToken_outcomes [where req = "ex_req ''tokenA'' [] JNull" and token = "''tokenA''"
      and e = ex_env and w = "deleteShopSession ''a.myshopify.com'' 2000 ex_world" and payload = ?p
      and dest = "''https://a.myshopify.com''"]
  note t3 = verifySessionToken_outcomes [where req = "ex_req ''garbage'' [] JNull" and token = "''garbage''"
      and e = ex_env and w = ex_world and payload = JNull]
  from t1 d r g1 have "verifySessionToken ex_env (ex_req ''tokenA'' [] JNull) ex_world =
     Next \<lparr>req_shop = ''a.myshopify.com'', req_accessToken = ''shpat_a'',
            req_authMethod = ''session_token''\<rparr>"
    by (simp del: js_replace.simps)
  moreover from t2 d r g2 have "rejects_with 401 (verifySessionToken ex_env (ex_req ''tokenA'' [] JNull)
      (deleteShopSession ''a.myshopify.com'' 2000 ex_world))"
    by (simp del: js_replace.simps)
  moreover from t3 n have "rejects_with 401 (verifySessionToken ex_env (ex_req ''garbage'' [] JNull) ex_world)"
    by simp
  ultimately show ?thesis by simp
qed

text \<open>
  Claim C4 as stated fails: the token \<^verbatim>\<open>tokenX\<close> carries the \<^verbatim>\<open>dest\<close>
  \<^verbatim>\<open>a.myshopify.comhttps://\<close>, which has no \<^verbatim>\<open>https://\<close> prefix to strip, and no active shop
  has that name; yet the middleware removes the inner \<^verbatim>\<open>https://\<close> and proceeds as shop
  \<^verbatim>\<open>a.myshopify.com\<close>.
\<close>

theorem session_dest_inner_https_counterexample:
  "bearer_token (ex_req ''tokenX'' [] JNull) = Some ''tokenX'' \<and>
   jwt_decode ex_env ''tokenX'' = Some (JObj [(''dest'', JStr ''a.myshopify.comhttps://'')]) \<and>
   spec_strip_https_prefix ''a.myshopify.comhttps://'' = ''a.myshopify.comhttps://'' \<and>
   getShopSession (spec_strip_https_prefix ''a.myshopify.comhttps://'') ex_world = None \<and>
   verifySessionToken ex_env (ex_req ''tokenX'' [] JNull) ex_world =
     Next \<lparr>req_shop = ''a.myshopify.com'', req_accessToken = ''shpat_a'',
            req_authMethod = ''session_token''\<rparr>"
proof -
  have "verifySessionToken ex_env (ex_req ''tokenX'' [] JNull) ex_world =
     Next \<lparr>req_shop = ''a.myshopify.com'', req_accessToken = ''shpat_a'',
            req_authMethod = ''session_token''\<rparr>"
    by (simp add: verifySessionToken_def ex_req_def js_prop_def truthy_def startsWith_def getShopSession_def)
  then show ?thesis
    by (simp add: spec_strip_https_prefix_def startsWith_def getShopSession_def)
qed

subsection \<open>Revoking an extension key\<close>

text \<open>
  Claim C8.  A revoke request authenticated as a shop answers 200 and deactivates
  exactly the key rows that match both the key value of the route and that shop; every
  other row and table is unchanged, and when the key value belongs to other shops only,
  the whole state is unchanged.
\<close>

theorem revoke_scoped_by_shop:
  assumes "verifySessionToken e req w = Next a"
  shows "fst (delete_extension_key e req w) =
           Json 200 (JObj [(''success'', JBool True), (''message'', JStr ''Access key revocado'')]) \<and>
         snd (delete_extension_key e req w) =
           w\<lparr>extension_keys :=
               map (\<lambda>k. if k_accessKey k = param_accessKey req \<and> k_shop k = req_shop a
                         then k\<lparr>k_isActive := False\<rparr> else k) (extension_keys w)\<rparr> \<and>
         (list_all (\<lambda>k. k_accessKey k = param_accessKey req \<longrightarrow> k_shop k \<noteq> req_shop a) (extension_keys w) \<longrightarrow>
            snd (delete_extension_key e req w) = w)"
proof -
  have r: "delete_extension_key e req w =
      (Json 200 (JObj [(''success'', JBool True), (''message'', JStr ''Access key revocado'')]),
       revokeExtensionKey (param_accessKey req) (req_shop a) w)"
    using assms by (simp add: delete_extension_key_def)
  have "list_all (\<lambda>k. k_accessKey k = param_accessKey req \<longrightarrow> k_shop k \<noteq> req_shop a) (extension_keys w) \<Longrightarrow>
        map (\<lambda>k. if k_accessKey k = param_accessKey req \<and> k_shop k = req_shop a
                         then k\<lparr>k_isActive := False\<rparr> else k) (extension_keys w) = extension_keys w"
    by (intro map_idI) (auto simp: list_all_iff)
  then show ?thesis
    unfolding r by (auto simp: revokeExtensionKey_def)
qed

text \<open>
  Shop \<^verbatim>\<open>b\<close> revoking the key \<^verbatim>\<open>sk_a\<close> of shop \<^verbatim>\<open>a\<close> changes nothing; shop \<^verbatim>\<open>a\<close>
  revoking it deactivates it.
\<close>

theorem revoke_scoped_by_shop_witness:
  "verifySessionToken ex_env (ex_req ''tokenB'' ''sk_a'' JNull) ex_world =
     Next \<lparr>req_shop = ''b.myshopify.com'', req_accessToken = ''shpat_b'',
            req_authMethod = ''session_token''\<rparr> \<and>
   list_all (\<lambda>k. k_accessKey k = ''sk_a'' \<longrightarrow> k_shop k \<noteq> ''b.myshopify.com'') (extension_keys ex_world) \<and>
   status (fst (delete_extension_key ex_env (ex_req ''tokenB'' ''sk_a'' JNull) ex_world)) = 200 \<and>
   snd (delete_extension_key ex_env (ex_req ''tokenB'' ''sk_a'' JNull) ex_world) = ex_world \<and>
   extension_keys (snd (delete_extension_key ex_env (ex_req ''tokenA'' ''sk_a'' JNull) ex_world)) =
     [ex_key_a\<lparr>k_isActive := False\<rparr>]"
proof -
  have b: "verifySessionToken ex_env (ex_req ''tokenB'' ''sk_a'' JNull) ex_world =
     Next \<lparr>req_shop = ''b.myshopify.com'', req_accessToken = ''shpat_b'',
            req_authMethod = ''session_token''\<rparr>"
    by (simp add: verifySessionToken_def ex_req_def js_prop_def truthy_def startsWith_def getShopSession_def)
  have a: "verifySessionToken ex_env (ex_req ''tokenA'' ''sk_a'' JNull) ex_world =
     Next \<lparr>req_shop = ''a.myshopify.com'', req_accessToken = ''shpat_a'',
            req_authMethod = ''session_token''\<rparr>"
    by (simp add: verifySessionToken_def ex_req_def js_prop_def truthy_def startsWith_def getShopSession_def)
  have o: "list_all (\<lambda>k. k_accessKey k = ''sk_a'' \<longrightarrow> k_shop k \<noteq> ''b.myshopify.com'') (extension_keys ex_world)"
    by simp
  have p: "param_accessKey (ex_req t ''sk_a'' JNull) = ''sk_a''" for t
    by (simp add: ex_req_def)
  from revoke_scoped_by_shop [OF b] o
  have "status (fst (delete_extension_key ex_env (ex_req ''tokenB'' ''sk_a'' JNull) ex_world)) = 200"
    "snd (delete_extension_key ex_env (ex_req ''tokenB'' ''sk_a'' JNull) ex_world) = ex_world"
    by (simp_all add: p)
  moreover from revoke_scoped_by_shop [OF a]
  have "extension_keys (snd (delete_extension_key ex_env (ex_req ''tokenA'' ''sk_a'' JNull) ex_world)) =
     [ex_key_a\<lparr>k_isActive := False\<rparr>]"
    by (simp add: p)
  ultimately show ?thesis using b o by simp
qed

subsection \<open>Sender configuration\<close>

lemma validate_Some:
  assumes "validateExtensionKey key t w = (Some (shop, tok), w')"
  shows "shops w' = shops w \<and> sender_configs w' = sender_configs w \<and>
         list_ex (\<lambda>r. s_shop r = shop) (shops w)"
  using assms
  by (auto simp: validateExtensionKey_def joined_shop_def find_Some_iff list_ex_iff
      split: option.splits)

lemma verifyExtensionKey_Next:
  assumes "verifyExtensionKey e req d w = (Next a, w')"
  shows "shops w' = shops w \<and> sender_configs w' = sender_configs w \<and>
         list_ex (\<lambda>r. s_shop r = req_shop a) (shops w)"
proof -
  from assms obtain key tok where "validateExtensionKey key (date_now d) w = (Some (req_shop a, tok), w')"
    by (auto simp: verifyExtensionKey_def Let_def split: option.splits if_splits prod.splits)
  then show ?thesis by (rule validate_Some)
qed

lemma verifyExtensionKey_Reject:
  assumes "verifyExtensionKey e req d w = (Reject r, w')"
  shows "status r = 401"
  using assms
  by (auto simp: verifyExtensionKey_def Let_def error_json_def split: option.splits if_splits prod.splits)

lemma projection_names: "map fst (config_projection r) = sender_fields"
  by (simp add: config_projection_def sender_fields_def)

lemma nullable_column:
  "map_of vals name = Some v \<Longrightarrow> string_or_null v \<Longrightarrow> nullable (column vals name prev) = v"
  by (cases v) (simp_all add: column_def nullable_def string_or_null_def)

lemma nullable_column_all:
  "\<forall>v. map_of vals name = Some v \<longrightarrow> string_or_null v \<longrightarrow> nullable (column vals name prev) = v"
  by (simp add: nullable_column)

lemma projection_written_all:
  "list_all (\<lambda>name. \<forall>v. map_of vals name = Some v \<longrightarrow> string_or_null v \<longrightarrow>
       map_of (config_projection (write_columns vals prev)) name = Some v) sender_fields"
  unfolding sender_fields_def
  by (simp add: config_projection_def write_columns_def nullable_column_all)

lemma projection_written:
  assumes "name \<in> set sender_fields" "map_of vals name = Some v" "string_or_null v"
  shows "map_of (config_projection (write_columns vals prev)) name = Some v"
  using projection_written_all [of vals prev] assms unfolding list_all_iff by blast

lemma vals_shop:
  assumes "map_of kvs ''shop'' = None"
  shows "js_prop (JObj (kvs @ [(''shop'', JStr shop)])) name =
           (if name = ''shop'' then JStr shop else js_prop (JObj kvs) name)"
  using assms by (auto simp: js_prop_def map_add_def split: option.splits)

lemma shop_not_sender_field: "name \<in> set sender_fields \<Longrightarrow> name \<noteq> ''shop''"
  by (auto simp: sender_fields_def)

lemma c_shop_write_columns [simp]: "c_shop (write_columns vals r) = c_shop r"
  by (simp add: write_columns_def)

lemma find_map_update:
  assumes "list_ex (\<lambda>c. c_shop c = key) cs"
  shows "\<exists>prev. find (\<lambda>c. c_shop c = key)
            (map (\<lambda>c. if c_shop c = key then write_columns vals c else c) cs) =
          Some (write_columns vals prev)"
  using assms by (induction cs) auto

lemma find_append_new:
  assumes "\<not> list_ex (\<lambda>c. c_shop c = key) cs" "c_shop r = key"
  shows "find (\<lambda>c. c_shop c = key) (cs @ [r]) = Some r"
  using assms by (induction cs) auto

lemma saveSenderConfig_ok:
  assumes ns: "map_of kvs ''shop'' = None"
      and ok: "list_all (\<lambda>name. string_column_ok (js_prop (JObj kvs) name)) sender_fields"
      and fk: "list_ex (\<lambda>r. s_shop r = shop) (shops w)"
  shows "\<exists>w'. saveSenderConfig shop (JObj kvs) w = Inr w' \<and> shops w' = shops w \<and>
              extension_keys w' = extension_keys w \<and>
              (\<exists>prev. getSenderConfig shop w' = Some (write_columns (kvs @ [(''shop'', JStr shop)]) prev))"
proof -
  let ?vals = "kvs @ [(''shop'', JStr shop)]"
  have v: "list_all (\<lambda>name. string_column_ok (js_prop (JObj ?vals) name)) (''shop'' # sender_fields)"
    using ok by (auto simp: vals_shop [OF ns] list_all_iff string_column_ok_def shop_not_sender_field)
  have c: "column ?vals ''shop'' None = Some shop"
    using ns by (simp add: column_def map_add_def)
  show ?thesis
  proof (cases "list_ex (\<lambda>c. c_shop c = shop) (sender_configs w)")
    case True
    from find_map_update [OF True, of ?vals] obtain prev where
      "find (\<lambda>c. c_shop c = shop)
         (map (\<lambda>c. if c_shop c = shop then write_columns ?vals c else c) (sender_configs w)) =
       Some (write_columns ?vals prev)" ..
    with True v c fk show ?thesis
      by (auto simp add: saveSenderConfig_def spread_def getSenderConfig_def)
  next
    case False
    have "c_shop (write_columns ?vals (config_defaults shop)) = shop"
      by (simp add: config_defaults_def)
    from find_append_new [OF False this]
    have "getSenderConfig shop (w\<lparr>sender_configs := sender_configs w @ [write_columns ?vals (config_defaults shop)]\<rparr>) =
          Some (write_columns ?vals (config_defaults shop))"
      by (simp add: getSenderConfig_def)
    with False v c fk show ?thesis
      by (auto simp add: saveSenderConfig_def spread_def)
  qed
qed

text \<open>
  Claim C7, as amended.  For a request authenticated by an extension key of a shop,
  \<^verbatim>\<open>GET /api/sender-config\<close> answers 404 when no configuration row exists for that shop.
  After a \<^verbatim>\<open>POST /api/sender-config\<close> authenticated for the shop, whose body has no
  \<^verbatim>\<open>shop\<close> property and passes validation, the post answers 200 and a following get for
  the same shop answers 200 with a configuration of exactly the ten whitelisted fields,
  each field that the body gave as a string or null having the value written.
\<close>

theorem sender_config_written_then_read:
  "(verifyExtensionKey e req d w = (Next a, w') \<and> getSenderConfig (req_shop a) w = None \<longrightarrow>
      status (fst (get_sender_config e req d w)) = 404) \<and>
   (verifyExtensionKey e post d w = (Next a, wp) \<and> body post = JObj kvs \<and>
    map_of kvs ''shop'' = None \<and>
    list_all (\<lambda>name. string_column_ok (js_prop (JObj kvs) name)) sender_fields \<and>
    verifyExtensionKey e get d' (snd (post_sender_config e post d w)) = (Next a', wg) \<and>
    req_shop a' = req_shop a \<longrightarrow>
      status (fst (post_sender_config e post d w)) = 200 \<and>
      status (fst (get_sender_config e get d' (snd (post_sender_config e post d w)))) = 200 \<and>
      map fst (response_config (fst (get_sender_config e get d' (snd (post_sender_config e post d w))))) =
        sender_fields \<and>
      (\<forall>name\<in>set sender_fields. \<forall>v. map_of kvs name = Some v \<and> string_or_null v \<longrightarrow>
         map_of (response_config (fst (get_sender_config e get d' (snd (post_sender_config e post d w)))))
           name = Some v))"
proof (intro conjI impI)
  assume a: "verifyExtensionKey e req d w = (Next a, w') \<and> getSenderConfig (req_shop a) w = None"
  then have "sender_configs w' = sender_configs w"
    using verifyExtensionKey_Next [of e req d w a w'] by simp
  then have "getSenderConfig (req_shop a) w' = None"
    using a by (simp add: getSenderConfig_def)
  with a show "status (fst (get_sender_config e req d w)) = 404"
    by (simp add: get_sender_config_def)
next
  assume h: "verifyExtensionKey e post d w = (Next a, wp) \<and> body post = JObj kvs \<and>
    map_of kvs ''shop'' = None \<and>
    list_all (\<lambda>name. string_column_ok (js_prop (JObj kvs) name)) sender_fields \<and>
    verifyExtensionKey e get d' (snd (post_sender_config e post d w)) = (Next a', wg) \<and>
    req_shop a' = req_shop a"
  then have h1: "verifyExtensionKey e post d w = (Next a, wp)"
    and h2: "body post = JObj kvs"
    and h3: "map_of kvs ''shop'' = None"
    and h4: "list_all (\<lambda>name. string_column_ok (js_prop (JObj kvs) name)) sender_fields"
    and h5: "verifyExtensionKey e get d' (snd (post_sender_config e post d w)) = (Next a', wg)"
    and h6: "req_shop a' = req_shop a"
    by simp_all
  let ?vals = "kvs @ [(''shop'', JStr (req_shop a))]"
  let ?w2 = "snd (post_sender_config e post d w)"
  let ?r = "fst (get_sender_config e get d' ?w2)"
  from verifyExtensionKey_Next [OF h1]
  have fk: "list_ex (\<lambda>r. s_shop r = req_shop a) (shops wp)"
    by simp
  from saveSenderConfig_ok [OF h3 h4 fk] obtain w2 where
    s: "saveSenderConfig (req_shop a) (JObj kvs) wp = Inr w2"
    and "\<exists>prev. getSenderConfig (req_shop a) w2 = Some (write_columns ?vals prev)"
    by blast
  then obtain prev where g: "getSenderConfig (req_shop a) w2 = Some (write_columns ?vals prev)"
    by (elim exE)
  have p: "post_sender_config e post d w =
      (Json 200 (JObj [(''success'', JBool True),
                       (''message'', JStr (''Configuraci'' @ o_acute @ ''n guardada''))]), w2)"
    using s by (simp add: post_sender_config_def h1 h2)
  then have w2: "?w2 = w2" by simp
  from h5 have h5': "verifyExtensionKey e get d' w2 = (Next a', wg)"
    by (simp only: w2)
  from verifyExtensionKey_Next [OF h5'] have "sender_configs wg = sender_configs w2"
    by simp
  then have "getSenderConfig (req_shop a') wg = Some (write_columns ?vals prev)"
    using g by (simp add: getSenderConfig_def h6)
  then have r: "?r = Json 200 (JObj [(''success'', JBool True),
        (''config'', JObj (config_projection (write_columns ?vals prev)))])"
    by (simp add: get_sender_config_def w2 h5')
  have c: "response_config ?r = config_projection (write_columns ?vals prev)"
    unfolding r by (simp add: response_config_def js_prop_def spread_def)
  show "status (fst (post_sender_config e post d w)) = 200"
    by (simp add: p)
  show "status ?r = 200"
    by (simp add: r)
  show "map fst (response_config ?r) = sender_fields"
    unfolding c by (rule projection_names)
  show "\<forall>name\<in>set sender_fields. \<forall>v. map_of kvs name = Some v \<and> string_or_null v \<longrightarrow>
         map_of (response_config ?r) name = Some v"
  proof (intro ballI allI impI)
    fix name v
    assume n: "name \<in> set sender_fields" and v: "map_of kvs name = Some v \<and> string_or_null v"
    from v have m: "map_of ?vals name = Some v" by (simp add: map_add_def)
    from v have sn: "string_or_null v" by simp
    show "map_of (response_config ?r) name = Some v"
      unfolding c using n m sn by (rule projection_written)
  qed
qed

lemma ex_post_auth:
  "verifyExtensionKey ex_env (ex_req ''sk_a'' [] b) ex_draw ex_world =
     (Next \<lparr>req_shop = ''a.myshopify.com'', req_accessToken = ''shpat_a'', req_authMethod = ''extension_key''\<rparr>,
      ex_world\<lparr>extension_keys := [ex_key_a\<lparr>k_lastUsedAt := Some 1000\<rparr>]\<rparr>)"
  by (simp add: verifyExtensionKey_def ex_req_def startsWith_def validateExtensionKey_def joined_shop_def
      ex_draw_def)

lemma ex_auth_sk_a:
  assumes "extension_keys w = [ex_key_a\<lparr>k_lastUsedAt := x\<rparr>]" "shops w = [ex_shop_a, ex_shop_b]"
  shows "fst (verifyExtensionKey ex_env (ex_req ''sk_a'' [] b) ex_draw w) =
     Next \<lparr>req_shop = ''a.myshopify.com'', req_accessToken = ''shpat_a'', req_authMethod = ''extension_key''\<rparr>"
  using assms
  by (simp add: verifyExtensionKey_def ex_req_def startsWith_def validateExtensionKey_def joined_shop_def)

lemma ex_config_kvs:
  "body (ex_req t k ex_config) = JObj (spread ex_config)"
  "map_of (spread ex_config) ''shop'' = None"
  "map_of (spread ex_config) ''senderName'' = Some (JStr ''Ana'')"
  "list_all (\<lambda>name. string_column_ok (js_prop (JObj (spread ex_config)) name)) sender_fields"
  by (simp_all add: ex_req_def ex_config_def spread_def sender_fields_def js_prop_def string_column_ok_def)

lemma ex_req_sel [simp]:
  "body (ex_req t k b) = b" "param_accessKey (ex_req t k b) = k"
  by (simp_all add: ex_req_def)

lemma ex_save_config:
  "saveSenderConfig ''a.myshopify.com'' ex_config
     (ex_world\<lparr>extension_keys := [ex_key_a\<lparr>k_lastUsedAt := Some 1000\<rparr>]\<rparr>) =
   Inr (ex_world\<lparr>extension_keys := [ex_key_a\<lparr>k_lastUsedAt := Some 1000\<rparr>],
              sender_configs :=
                [\<lparr>c_shop = ''a.myshopify.com'', c_senderIdentificationType = Some ''1'',
                  c_senderId = Some ''101110111'', c_senderName = Some ''Ana'',
                  c_senderPhone = Some ''88888888'', c_senderMail = Some ''ana@example.com'',
                  c_provinciaSender = Some ''1'', c_cantonSender = Some ''01'',
                  c_distritoSender = Some ''01'', c_senderPostalCode = Some ''10101'',
                  c_senderDirection = Some ''San Jose''\<rparr>]\<rparr>)"
  by (simp add: saveSenderConfig_def ex_config_def
      spread_def sender_fields_def js_prop_def string_column_ok_def column_def write_columns_def
      config_defaults_def)

lemma ex_post_result:
  "snd (post_sender_config ex_env (ex_req ''sk_a'' [] ex_config) ex_draw ex_world) =
     ex_world\<lparr>extension_keys := [ex_key_a\<lparr>k_lastUsedAt := Some 1000\<rparr>],
              sender_configs :=
                [\<lparr>c_shop = ''a.myshopify.com'', c_senderIdentificationType = Some ''1'',
                  c_senderId = Some ''101110111'', c_senderName = Some ''Ana'',
                  c_senderPhone = Some ''88888888'', c_senderMail = Some ''ana@example.com'',
                  c_provinciaSender = Some ''1'', c_cantonSender = Some ''01'',
                  c_distritoSender = Some ''01'', c_senderPostalCode = Some ''10101'',
                  c_senderDirection = Some ''San Jose''\<rparr>]\<rparr>"
  by (simp add: post_sender_config_def ex_post_auth ex_save_config)

text \<open>
  Claim C7 as stated fails: the configuration read back after posting the sample
  configuration has ten fields, those written, not six.
\<close>

theorem sender_config_ten_fields_counterexample:
  "response_config (fst (get_sender_config ex_env (ex_req ''sk_a'' [] JNull) ex_draw
      (snd (post_sender_config ex_env (ex_req ''sk_a'' [] ex_config) ex_draw ex_world)))) =
     spread ex_config \<and>
   length (spread ex_config) = 10"
  unfolding ex_post_result
  by (simp add: get_sender_config_def verifyExtensionKey_def ex_req_def startsWith_def
      validateExtensionKey_def joined_shop_def getSenderConfig_def response_config_def js_prop_def
      spread_def config_projection_def nullable_def ex_config_def)

text \<open>
  Shop \<^verbatim>\<open>a\<close> reads 404, posts the sample configuration and reads it back.
\<close>

theorem sender_config_written_then_read_witness:
  "status (fst (get_sender_config ex_env (ex_req ''sk_a'' [] JNull) ex_draw ex_world)) = 404 \<and>
   status (fst (post_sender_config ex_env (ex_req ''sk_a'' [] ex_config) ex_draw ex_world)) = 200 \<and>
   status (fst (get_sender_config ex_env (ex_req ''sk_a'' [] JNull) ex_draw
      (snd (post_sender_config ex_env (ex_req ''sk_a'' [] ex_config) ex_draw ex_world)))) = 200 \<and>
   map fst (response_config (fst (get_sender_config ex_env (ex_req ''sk_a'' [] JNull) ex_draw
      (snd (post_sender_config ex_env (ex_req ''sk_a'' [] ex_config) ex_draw ex_world))))) =
     sender_fields \<and>
   map_of (response_config (fst (get_sender_config ex_env (ex_req ''sk_a'' [] JNull) ex_draw
      (snd (post_sender_config ex_env (ex_req ''sk_a'' [] ex_config) ex_draw ex_world)))))
     ''senderName'' = Some (JStr ''Ana'')"
proof -
  let ?a = "\<lparr>req_shop = ''a.myshopify.com'', req_accessToken = ''shpat_a'',
             req_authMethod = ''extension_key''\<rparr>"
  let ?w1 = "ex_world\<lparr>extension_keys := [ex_key_a\<lparr>k_lastUsedAt := Some 1000\<rparr>]\<rparr>"
  let ?post = "ex_req ''sk_a'' [] ex_config"
  let ?get = "ex_req ''sk_a'' [] JNull"
  let ?w2 = "snd (post_sender_config ex_env ?post ex_draw ex_world)"
  have g0: "getSenderConfig (req_shop ?a) ex_world = None"
    by (simp add: getSenderConfig_def)
  have "fst (verifyExtensionKey ex_env ?get ex_draw ?w2) = Next ?a"
    unfolding ex_post_result by (rule ex_auth_sk_a) simp_all
  then have g1: "verifyExtensionKey ex_env ?get ex_draw ?w2 =
                 (Next ?a, snd (verifyExtensionKey ex_env ?get ex_draw ?w2))"
    by (simp add: prod_eq_iff)
  have n: "''senderName'' \<in> set sender_fields"
    by (simp add: sender_fields_def)
  have sn: "string_or_null (JStr ''Ana'')"
    by (simp add: string_or_null_def)
  note t = sender_config_written_then_read
    [where e = ex_env and req = ?get and d = ex_draw and w = ex_world and a = ?a and w' = ?w1
       and post = ?post and wp = ?w1 and kvs = "spread ex_config" and get = ?get and d' = ex_draw
       and a' = ?a and wg = "snd (verifyExtensionKey ex_env ?get ex_draw ?w2)"]
  from t g0 g1 n sn ex_post_auth [of JNull] ex_post_auth [of ex_config] ex_config_kvs
  show ?thesis
    by (simp del: list.pred_inject)
qed

text \<open>
  A \<^verbatim>\<open>shop\<close> property in the posted body takes the place of the authenticated shop in
  \<^verbatim>\<open>{ shop, ...config }\<close>: shop \<^verbatim>\<open>a\<close> writes the row of shop \<^verbatim>\<open>b\<close>.
\<close>

lemma sender_config_body_shop_overrides:
  "map c_shop (sender_configs (snd (post_sender_config ex_env
      (ex_req ''sk_a'' [] (JObj [(''shop'', JStr ''b.myshopify.com''), (''senderName'', JStr ''Eve'')]))
      ex_draw ex_world))) = [''b.myshopify.com'']"
  by (simp add: post_sender_config_def ex_post_auth saveSenderConfig_def spread_def sender_fields_def
      js_prop_def string_column_ok_def column_def write_columns_def config_defaults_def)

subsection \<open>Webhooks\<close>

lemma show_nat_nonempty: "show_nat n \<noteq> []"
  by (subst show_nat.simps) simp

lemma length_array_join:
  "(\<And>x. x \<in> set xs \<Longrightarrow> x \<noteq> []) \<Longrightarrow> length xs \<le> length (array_join sep xs)"
proof (induction sep xs rule: array_join.induct)
  case (1 sep)
  then show ?case by simp
next
  case (2 sep x)
  then show ?case by (cases x) simp_all
next
  case (3 sep x y ys)
  from 3(2) have "x \<noteq> []" by simp
  then have "1 \<le> length x" by (cases x) simp_all
  moreover from 3 have "length (y # ys) \<le> length (array_join sep (y # ys))" by simp
  ultimately show ?case by simp
qed

lemma stringify_buffer_longer: "length raw < length (stringify_buffer raw)"
proof -
  have "length (map (\<lambda>c. show_nat (of_char c)) raw) \<le>
        length (array_join '','' (map (\<lambda>c. show_nat (of_char c)) raw))"
    by (rule length_array_join) (auto simp: show_nat_nonempty)
  then show ?thesis by (simp add: stringify_buffer_def)
qed

lemma stringify_buffer_differs: "stringify_buffer raw \<noteq> raw"
  using stringify_buffer_longer [of raw] by auto

text \<open>
  What the uninstall route does, on a delivery whose body is a buffer, with the
  signature it computes itself: on a match the shop of the header and all its keys are
  deactivated and the answer is 200, otherwise the answer is 403 and nothing changes.
\<close>

lemma app_uninstalled_own_hmac:
  assumes "map_of (wh_headers req) ''x-shopify-hmac-sha256'' =
             Some (hmac_sha256_base64 e (SHOPIFY_API_SECRET e) (stringify_buffer (rawBody req)))"
      and "map_of (wh_headers req) ''x-shopify-shop-domain'' = Some shop"
  shows "app_uninstalled e req d w = (Send 200 ''OK'', deleteShopSession shop (date_now d) w)"
  using assms by (simp add: app_uninstalled_def Let_def)

lemma app_uninstalled_mismatch:
  assumes "map_of (wh_headers req) ''x-shopify-hmac-sha256'' \<noteq>
             Some (hmac_sha256_base64 e (SHOPIFY_API_SECRET e) (stringify_buffer (rawBody req)))"
  shows "app_uninstalled e req d w = (Send 403 ''HMAC validation failed'', w)"
  using assms by (simp add: app_uninstalled_def Let_def)

lemma deactivated_shops:
  "list_all (\<lambda>r. s_shop r = shop \<longrightarrow> \<not> s_isActive r \<and> s_uninstalledAt r = Some t)
     (map (\<lambda>r. if s_shop r = shop then r\<lparr>s_isActive := False, s_uninstalledAt := Some t\<rparr> else r) rs)"
  by (induction rs) simp_all

lemma deactivated_keys:
  "list_all (\<lambda>k. k_shop k = shop \<longrightarrow> \<not> k_isActive k)
     (map (\<lambda>k. if k_shop k = shop then k\<lparr>k_isActive := False\<rparr> else k) ks)"
  by (induction ks) simp_all

lemma deleteShopSession_deactivates:
  "getShopSession shop (deleteShopSession shop t w) = None \<and>
   list_all (\<lambda>r. s_shop r = shop \<longrightarrow> \<not> s_isActive r \<and> s_uninstalledAt r = Some t)
     (shops (deleteShopSession shop t w)) \<and>
   list_all (\<lambda>k. k_shop k = shop \<longrightarrow> \<not> k_isActive k) (extension_keys (deleteShopSession shop t w))"
proof -
  have s: "list_all (\<lambda>r. s_shop r = shop \<longrightarrow> \<not> s_isActive r \<and> s_uninstalledAt r = Some t)
     (shops (deleteShopSession shop t w))"
    by (simp add: deleteShopSession_def deactivated_shops)
  have k: "list_all (\<lambda>k. k_shop k = shop \<longrightarrow> \<not> k_isActive k) (extension_keys (deleteShopSession shop t w))"
    by (simp add: deleteShopSession_def deactivated_keys)
  from s have "getShopSession shop (deleteShopSession shop t w) = None"
    unfolding getShopSession_def find_None_iff list_all_iff by blast
  with s k show ?thesis by simp
qed

text \<open>
  Claim C2: what the code does where the claim fails.  A delivery whose header is the
  base64 HMAC of the raw request body, as \<^verbatim>\<open>verifyShopifyWebhook\<close> of the other webhook
  routes accepts it, is answered 403 by the uninstall route and nothing is deactivated,
  whenever the HMAC function separates the raw body from the \<^verbatim>\<open>JSON.stringify\<close> text of
  the buffer, which is always a different string: the route signs that text instead.
\<close>

theorem app_uninstalled_rejects_platform_hmac:
  assumes "map_of (wh_headers req) ''x-shopify-hmac-sha256'' =
             Some (hmac_sha256_base64 e (SHOPIFY_API_SECRET e) (rawBody req))"
      and "hmac_sha256_base64 e (SHOPIFY_API_SECRET e) (rawBody req) \<noteq>
           hmac_sha256_base64 e (SHOPIFY_API_SECRET e) (stringify_buffer (rawBody req))"
  shows "verifyShopifyWebhook e (rawBody req) (map_of (wh_headers req) ''x-shopify-hmac-sha256'') \<and>
         stringify_buffer (rawBody req) \<noteq> rawBody req \<and>
         app_uninstalled e req d w = (Send 403 ''HMAC validation failed'', w)"
  using assms
  by (simp add: verifyShopifyWebhook_def stringify_buffer_differs app_uninstalled_mismatch)

text \<open>
  The sample uninstall delivery for shop \<^verbatim>\<open>a\<close>: accepted by the probe route, rejected
  by the uninstall route, and the shop stays active.
\<close>

theorem app_uninstalled_rejects_platform_hmac_witness:
  "map_of (wh_headers ex_uninstall) ''x-shopify-hmac-sha256'' =
     Some (hmac_sha256_base64 ex_env (SHOPIFY_API_SECRET ex_env) (rawBody ex_uninstall)) \<and>
   webhooks_probe ex_env ex_uninstall = Send 200 ''OK'' \<and>
   app_uninstalled ex_env ex_uninstall ex_draw ex_world = (Send 403 ''HMAC validation failed'', ex_world) \<and>
   getShopSession ''a.myshopify.com'' ex_world = Some ex_shop_a"
proof -
  have h: "map_of (wh_headers ex_uninstall) ''x-shopify-hmac-sha256'' =
     Some (hmac_sha256_base64 ex_env (SHOPIFY_API_SECRET ex_env) (rawBody ex_uninstall))"
    by (simp add: ex_uninstall_def)
  have n: "hmac_sha256_base64 ex_env (SHOPIFY_API_SECRET ex_env) (rawBody ex_uninstall) \<noteq>
           hmac_sha256_base64 ex_env (SHOPIFY_API_SECRET ex_env) (stringify_buffer (rawBody ex_uninstall))"
    using stringify_buffer_differs [of "''{}''"] by (auto simp add: ex_uninstall_def)
  from app_uninstalled_rejects_platform_hmac [OF h n, of ex_draw ex_world]
  show ?thesis
    using h by (simp add: webhooks_probe_def getShopSession_def)
qed

text \<open>\<^verbatim>\<open>database.js\<close> does not export the name that the redact handler calls.\<close>

lemma deleteShopData_not_exported: "''deleteShopData'' \<notin> set database_exports"
  by (simp add: database_exports_def)

text \<open>
  The other ways the redact handler ends: a request whose body is not a buffer, and a
  verified body that is not JSON, reject the handler's promise; a buffer whose signature
  does not verify is answered 401.
\<close>

lemma customers_redact_unparsed:
  "dl_body req = Unparsed \<Longrightarrow>
   customers_redact e req w =
     (UnhandledRejection (TypeError ''The data argument must be of type string or Buffer''), w)"
  by (simp add: customers_redact_def Let_def)

lemma customers_redact_forged:
  "dl_body req = Buffer raw \<Longrightarrow>
   \<not> verifyShopifyWebhook e raw (map_of (dl_headers req) ''x-shopify-hmac-sha256'') \<Longrightarrow>
   customers_redact e req w = (Responded (Send 401 ''Unauthorized''), w)"
  by (simp add: customers_redact_def Let_def)

lemma customers_redact_syntax_error:
  "dl_body req = Buffer raw \<Longrightarrow>
   verifyShopifyWebhook e raw (map_of (dl_headers req) ''x-shopify-hmac-sha256'') \<Longrightarrow>
   json_parse e raw = None \<Longrightarrow>
   customers_redact e req w = (UnhandledRejection SyntaxError, w)"
  by (simp add: customers_redact_def Let_def)

text \<open>
  Claim C3: what the code does where the claim fails.  On a delivery whose HMAC
  verifies and whose body parses to a value other than \<^verbatim>\<open>null\<close>, the handler throws
  \<^verbatim>\<open>TypeError: deleteShopData is not a function\<close>; the exception is not caught, no
  response is written, and nothing is deleted.  On no request at all does the handler
  answer 200 or change the stored data.
\<close>

theorem customers_redact_deletes_nothing:
  "(dl_body req = Buffer raw \<and>
    verifyShopifyWebhook e raw (map_of (dl_headers req) ''x-shopify-hmac-sha256'') \<and>
    json_parse e raw = Some webhook \<and> webhook \<noteq> JNull \<longrightarrow>
      customers_redact e req w =
        (UnhandledRejection (TypeError ''deleteShopData is not a function''), w)) \<and>
   fst (customers_redact e req w) \<noteq> Responded (Send 200 ''OK'') \<and>
   snd (customers_redact e req w) = w"
  by (simp add: customers_redact_def deleteShopData_def Let_def split: raw_body.splits option.splits)

text \<open>
  The sample redact delivery for shop \<^verbatim>\<open>a\<close>: the handler ends in the
  \<^verbatim>\<open>TypeError\<close>, and the rows of the shop, its key and its state are still there.
\<close>

theorem customers_redact_deletes_nothing_witness:
  "dl_body ex_redact = Buffer ex_redact_body \<and>
   verifyShopifyWebhook ex_redact_env ex_redact_body
     (map_of (dl_headers ex_redact) ''x-shopify-hmac-sha256'') \<and>
   json_parse ex_redact_env ex_redact_body = Some (JObj [(''shop_domain'', JStr ''a.myshopify.com'')]) \<and>
   customers_redact ex_redact_env ex_redact ex_world =
     (UnhandledRejection (TypeError ''deleteShopData is not a function''), ex_world) \<and>
   shops ex_world = [ex_shop_a, ex_shop_b] \<and> extension_keys ex_world = [ex_key_a]"
proof -
  have b: "dl_body ex_redact = Buffer ex_redact_body"
    by (simp add: ex_redact_def)
  have v: "verifyShopifyWebhook ex_redact_env ex_redact_body
     (map_of (dl_headers ex_redact) ''x-shopify-hmac-sha256'')"
    by (simp add: verifyShopifyWebhook_def ex_redact_def ex_redact_env_def)
  have p: "json_parse ex_redact_env ex_redact_body = Some (JObj [(''shop_domain'', JStr ''a.myshopify.com'')])"
    by (simp add: ex_redact_env_def)
  from customers_redact_deletes_nothing
    [where req = ex_redact and raw = ex_redact_body and e = ex_redact_env and w = ex_world
       and webhook = "JObj [(''shop_domain'', JStr ''a.myshopify.com'')]"]
  show ?thesis using b v p by simp
qed

subsection \<open>Expiry of pending states\<close>

lemma shopRegex_a: "shopRegex_test ''a.myshopify.com''"
  by (simp add: shopRegex_test_def is_alnum_def)

lemma queryString_ignores_hmac: "queryString ((''hmac'', v) # q) = queryString q"
  by (simp add: queryString_def)

lemma exchange_status: "status (fst (exchange_and_install e shop code d w)) \<noteq> 403"
  by (simp add: exchange_and_install_def Let_def split: option.splits sum.splits prod.splits)

lemma saveShopSession_frame:
  "saveShopSession shop tok sc t (w\<lparr>temporaryStates := x\<rparr>) =
     (case saveShopSession shop tok sc t w of
        Inl err \<Rightarrow> Inl err
      | Inr w' \<Rightarrow> Inr (w'\<lparr>temporaryStates := x\<rparr>))"
  by (simp add: saveShopSession_def Let_def split: jsval.splits option.splits)

lemma createExtensionKey_frame:
  "createExtensionKey shop name d (w\<lparr>temporaryStates := x\<rparr>) =
     (case createExtensionKey shop name d w of
        Inl err \<Rightarrow> Inl err
      | Inr (k, w') \<Rightarrow> Inr (k, w'\<lparr>temporaryStates := x\<rparr>))"
  by (simp add: createExtensionKey_def getShopSession_def Let_def split: option.splits)

lemma exchange_response_frame:
  "fst (exchange_and_install e shop code d (w\<lparr>temporaryStates := x\<rparr>)) =
   fst (exchange_and_install e shop code d w)"
proof -
  let ?url = "''https://'' @ js_toString shop @ ''/admin/oauth/access_token''"
  have c: "(w\<lparr>temporaryStates := x\<rparr>)\<lparr>sent := sent (w\<lparr>temporaryStates := x\<rparr>) @ [TokenExchange ?url code]\<rparr> =
        (w\<lparr>sent := sent w @ [TokenExchange ?url code]\<rparr>)\<lparr>temporaryStates := x\<rparr>"
    by simp
  show ?thesis
    unfolding exchange_and_install_def Let_def c saveShopSession_frame
    by (simp add: createExtensionKey_frame split: option.splits sum.splits prod.splits)
qed

lemma map_of_retimed:
  "map_of (map (\<lambda>(k, p). (k, p\<lparr>p_timestamp := f k p\<rparr>)) al) key =
     map_option (\<lambda>p. p\<lparr>p_timestamp := f key p\<rparr>) (map_of al key)"
  by (induction al) auto

lemma callback_ignores_timestamps:
  "fst (callback e q d (w\<lparr>temporaryStates := map (\<lambda>(k, p). (k, p\<lparr>p_timestamp := f k p\<rparr>)) (temporaryStates w)\<rparr>)) =
   fst (callback e q d w)"
  by (simp add: callback_def Let_def map_of_retimed exchange_response_frame split: option.splits)

lemma set_update_subset: "set (AList.update k v al) \<subseteq> insert (k, v) (set al)"
  by (induction al) auto

lemma set_delete_subset: "set (AList.delete k al) \<subseteq> set al"
  by (induction al) auto

lemma auth_temporaryStates:
  "set (temporaryStates (snd (auth e q d w))) \<subseteq>
     set (temporaryStates w) \<union> {(k, p). p_timestamp p = date_now d}"
proof -
  let ?p = "\<lparr>p_state = randomBytes16 d, p_timestamp = date_now d\<rparr>"
  have "set (AList.update k ?p (temporaryStates w)) \<subseteq>
          set (temporaryStates w) \<union> {(k, p). p_timestamp p = date_now d}" for k
    using set_update_subset [of k ?p "temporaryStates w"] by auto
  then show ?thesis
    by (simp add: auth_def Let_def)
qed

lemma callback_temporaryStates:
  "set (temporaryStates (snd (callback e q d w))) \<subseteq> set (temporaryStates w)"
  using set_delete_subset [of _ "temporaryStates w"]
  by (auto simp: callback_def Let_def exchange_temporaryStates split: option.splits)

lemma timeline_ages:
  assumes "due - 300000 \<le> clock" "clock \<le> due"
      and "\<forall>(k, p) \<in> set (temporaryStates w). due - 600000 \<le> p_timestamp p"
      and "timeline clock due (es @ [CallbackRequest q d])"
  shows "\<forall>(k, p) \<in> set (temporaryStates (foldl (step e) w es)). date_now d - p_timestamp p \<le> 600000"
  using assms
proof (induction es arbitrary: clock due w)
  case Nil
  then show ?case by fastforce
next
  case (Cons ev es)
  show ?case
  proof (cases ev)
    case (AuthRequest q' d')
    with Cons.prems have t: "clock \<le> date_now d'" "date_now d' \<le> due"
      "timeline (date_now d') due (es @ [CallbackRequest q d])" by simp_all
    have "\<forall>(k, p) \<in> set (temporaryStates (snd (auth e q' d' w))). due - 600000 \<le> p_timestamp p"
      using auth_temporaryStates [of e q' d' w] Cons.prems(1,3) t(1) by fastforce
    from Cons.IH [OF _ t(2) this t(3)] Cons.prems(1) t(1) show ?thesis
      by (simp add: AuthRequest)
  next
    case (CallbackRequest q' d')
    with Cons.prems have t: "clock \<le> date_now d'" "date_now d' \<le> due"
      "timeline (date_now d') due (es @ [CallbackRequest q d])" by simp_all
    have "\<forall>(k, p) \<in> set (temporaryStates (snd (callback e q' d' w))). due - 600000 \<le> p_timestamp p"
      using callback_temporaryStates [of e q' d' w] Cons.prems(3) by fastforce
    from Cons.IH [OF _ t(2) this t(3)] Cons.prems(1) t(1) show ?thesis
      by (simp add: CallbackRequest)
  next
    case (SweepTimer t)
    with Cons.prems(4) have t: "t = due" "timeline due (due + 300000) (es @ [CallbackRequest q d])"
      by auto
    have "\<forall>(k, p) \<in> set (temporaryStates (sweep due w)). (due + 300000) - 600000 \<le> p_timestamp p"
      by (auto simp: sweep_def)
    from Cons.IH [OF _ _ this t(2)] show ?thesis
      by (simp add: SweepTimer t(1))
  qed
qed

lemma stale_state_exists:
  "\<exists>es q d p.
       timeline t0 (t0 + 300000) (es @ [CallbackRequest q d]) \<and>
       map_of (temporaryStates (run e es)) (''state_'' @ js_toString (js_prop (JObj q) ''shop'')) = Some p \<and>
       300000 < date_now d - p_timestamp p \<and>
       status (fst (callback e q d (run e es))) \<noteq> 403"
proof -
  let ?qa = "[(''shop'', JStr ''a.myshopify.com''), (''state'', JStr ''s'')]"
  let ?q = "(''hmac'', JStr (hmac_sha256_hex e (SHOPIFY_API_SECRET e) (queryString ?qa))) # ?qa"
  let ?da = "\<lparr>date_now = t0 + 1, randomBytes16 = ''s'', randomBytes32 = [], uuidv4 = []\<rparr>"
  let ?d = "\<lparr>date_now = t0 + 600000, randomBytes16 = [], randomBytes32 = [], uuidv4 = []\<rparr>"
  let ?es = "[AuthRequest [(''shop'', JStr ''a.myshopify.com'')] ?da, SweepTimer (t0 + 300000)]"
  let ?p = "\<lparr>p_state = ''s'', p_timestamp = t0 + 1\<rparr>"
  have tl: "timeline t0 (t0 + 300000) (?es @ [CallbackRequest ?q ?d])"
    by simp
  have r: "temporaryStates (run e ?es) = [(''state_a.myshopify.com'', ?p)]"
    by (simp add: run_def initial_def auth_def sweep_def js_prop_def truthy_def shopRegex_a Let_def)
  have props: "js_prop (JObj ?q) ''shop'' = JStr ''a.myshopify.com''"
    "js_prop (JObj ?q) ''state'' = JStr ''s''"
    "js_prop (JObj ?q) ''hmac'' = JStr (hmac_sha256_hex e (SHOPIFY_API_SECRET e) (queryString ?qa))"
    by (simp_all add: js_prop_def)
  have m': "map_of (temporaryStates (run e ?es)) ''state_a.myshopify.com'' = Some ?p"
    unfolding r by simp
  then have m: "map_of (temporaryStates (run e ?es)) (''state_'' @ js_toString (js_prop (JObj ?q) ''shop'')) = Some ?p"
    by (simp add: props)
  have age: "300000 < date_now ?d - p_timestamp ?p"
    by simp
  have "status (fst (callback e ?q ?d (run e ?es))) \<noteq> 403"
    by (simp add: callback_def Let_def props m' queryString_ignores_hmac strict_eq_str_def exchange_status)
  with tl m age show ?thesis by blast
qed

text \<open>
  Claim C9.  Whenever the server starts, there is a timeline and a callback at its end at
  which a pending state older than 300000 ms is still stored and the callback does not
  answer 403.  The answer of the callback is the same whatever the timestamps of the
  pending states are.  And on every timeline a pending state that a callback finds is
  at most 600000 ms old: the sweep alone bounds its age, by twice the nominal lifetime.
\<close>

theorem stale_pending_state_accepted:
  "(\<exists>es q d p.
       timeline t0 (t0 + 300000) (es @ [CallbackRequest q d]) \<and>
       map_of (temporaryStates (run e es)) (''state_'' @ js_toString (js_prop (JObj q) ''shop'')) = Some p \<and>
       300000 < date_now d - p_timestamp p \<and>
       status (fst (callback e q d (run e es))) \<noteq> 403) \<and>
   fst (callback e q d (w\<lparr>temporaryStates :=
          map (\<lambda>(k, p). (k, p\<lparr>p_timestamp := f k p\<rparr>)) (temporaryStates w)\<rparr>)) =
     fst (callback e q d w) \<and>
   (timeline t0 (t0 + 300000) (es @ [CallbackRequest q d]) \<and>
    map_of (temporaryStates (run e es)) key = Some p \<longrightarrow>
      date_now d - p_timestamp p \<le> 600000)"
proof (intro conjI impI)
  show "\<exists>es q d p.
       timeline t0 (t0 + 300000) (es @ [CallbackRequest q d]) \<and>
       map_of (temporaryStates (run e es)) (''state_'' @ js_toString (js_prop (JObj q) ''shop'')) = Some p \<and>
       300000 < date_now d - p_timestamp p \<and>
       status (fst (callback e q d (run e es))) \<noteq> 403"
    by (rule stale_state_exists)
next
  show "fst (callback e q d (w\<lparr>temporaryStates :=
          map (\<lambda>(k, p). (k, p\<lparr>p_timestamp := f k p\<rparr>)) (temporaryStates w)\<rparr>)) =
     fst (callback e q d w)"
    by (rule callback_ignores_timestamps)
next
  assume a: "timeline t0 (t0 + 300000) (es @ [CallbackRequest q d]) \<and>
    map_of (temporaryStates (run e es)) key = Some p"
  then have tl: "timeline t0 (t0 + 300000) (es @ [CallbackRequest q d])"
    and "(key, p) \<in> set (temporaryStates (run e es))"
    by (simp_all add: map_of_SomeD)
  moreover have "\<forall>(k, p) \<in> set (temporaryStates (foldl (step e) initial es)).
                   date_now d - p_timestamp p \<le> 600000"
    by (rule timeline_ages [OF _ _ _ tl]) (simp_all add: initial_def)
  ultimately show "date_now d - p_timestamp p \<le> 600000"
    by (auto simp: run_def)
qed

lemma ex_stale_run:
  "run ex_env ex_stale_events =
     initial\<lparr>temporaryStates := [(''state_a.myshopify.com'', \<lparr>p_state = ''s1'', p_timestamp = 1\<rparr>)]\<rparr>"
  by (simp add: run_def ex_stale_events_def initial_def auth_def sweep_def js_prop_def truthy_def
      shopRegex_a Let_def ex_draw_def)

text \<open>
  The sample timeline: a state issued at 1 ms survives the sweep at 300000 ms and
  completes an installation at 600000 ms.
\<close>

theorem stale_pending_state_accepted_witness:
  "timeline 0 300000 (ex_stale_events @ [CallbackRequest (ex_query ''good'' (ex_sig ''good'')) ex_late_draw]) \<and>
   map_of (temporaryStates (run ex_env ex_stale_events)) ''state_a.myshopify.com'' =
     Some \<lparr>p_state = ''s1'', p_timestamp = 1\<rparr> \<and>
   (300000::int) < date_now ex_late_draw - 1 \<and>
   date_now ex_late_draw - 1 \<le> (600000::int) \<and>
   fst (callback ex_env (ex_query ''good'' (ex_sig ''good'')) ex_late_draw (run ex_env ex_stale_events)) =
     Redirect ''https://a.myshopify.com/admin/apps/key1''"
proof -
  let ?q = "ex_query ''good'' (ex_sig ''good'')"
  let ?p = "\<lparr>p_state = ''s1'', p_timestamp = 1\<rparr>"
  have tl: "timeline 0 300000 (ex_stale_events @ [CallbackRequest ?q ex_late_draw])"
    by (simp add: ex_stale_events_def ex_late_draw_def ex_draw_def)
  have m: "map_of (temporaryStates (run ex_env ex_stale_events)) ''state_a.myshopify.com'' = Some ?p"
    by (simp add: ex_stale_run)
  have r: "fst (callback ex_env ?q ex_late_draw (run ex_env ex_stale_events)) =
     Redirect ''https://a.myshopify.com/admin/apps/key1''"
    by (simp add: ex_stale_run callback_def strict_eq_str_def ex_sig_def exchange_and_install_def
        saveShopSession_def createExtensionKey_def getShopSession_def initial_def Let_def)
  from stale_pending_state_accepted [where ?t0.0 = 0 and e = ex_env and es = ex_stale_events
      and q = ?q and d = ex_late_draw and key = "''state_a.myshopify.com''" and p = ?p]
    tl m
  have "date_now ex_late_draw - p_timestamp ?p \<le> 600000"
    by simp
  with tl m r show ?thesis
    by (simp add: ex_late_draw_def)
qed

end
